theory Spec2Isabelle
  imports Complex_Main "HOL-Library.Finite_Map" "HOL-Library.Sublist"
begin

section \<open>JavaScript values\<close>

text \<open>
  The state cells of \<^verbatim>\<open>AppContent\<close> hold plain data: what the constants module
  declares, what \<^verbatim>\<open>doc.data()\<close> returns and what the settings editor stores.
  Numbers are opaque payloads here (the program does no arithmetic on them); only
  their truthiness and their JSON image matter, which is why \<open>NaN\<close> and the
  infinities are kept apart from the finite ones. An object is a finite map from
  property names to values; a property that is absent reads as \<open>undefined\<close>.
\<close>

datatype jsnum = Finite real | NaN | Infinity bool

datatype jsval =
    JUndefined
  | JNull
  | JBool bool
  | JNum jsnum
  | JStr string
  | JArr "jsval list"
  | JObj "(string, jsval) fmap"

type_synonym obj = "(string, jsval) fmap"

datatype js_error = TypeError

text \<open>Truthiness, as \<^verbatim>\<open>||\<close>, \<^verbatim>\<open>if\<close> and \<^verbatim>\<open>?:\<close> test it.\<close>

fun truthy :: "jsval \<Rightarrow> bool" where
  "truthy JUndefined = False"
| "truthy JNull = False"
| "truthy (JBool b) = b"
| "truthy (JNum n) = (n \<noteq> Finite 0 \<and> n \<noteq> NaN)"
| "truthy (JStr s) = (s \<noteq> [])"
| "truthy (JArr xs) = True"
| "truthy (JObj m) = True"

text \<open>\<^verbatim>\<open>a || b\<close>\<close>

definition js_or :: "jsval \<Rightarrow> jsval \<Rightarrow> jsval" where
  "js_or a b = (if truthy a then a else b)"

text \<open>\<^verbatim>\<open>o.k\<close> on an object.\<close>

definition prop_of :: "obj \<Rightarrow> string \<Rightarrow> jsval" where
  "prop_of m k = (case fmlookup m k of None \<Rightarrow> JUndefined | Some v \<Rightarrow> v)"

text \<open>Decimal property names of array and string indices.\<close>

fun string_of_nat :: "nat \<Rightarrow> string" where
  "string_of_nat n =
     (if n < 10 then [char_of (48 + n)]
      else string_of_nat (n div 10) @ [char_of (48 + n mod 10)])"

text \<open>
  The own enumerable properties that \<^verbatim>\<open>{...v}\<close> copies: the properties of an
  object, the indices of an array or of a string, nothing for the other values.
\<close>

fun own_props :: "jsval \<Rightarrow> obj" where
  "own_props (JObj m) = m"
| "own_props (JArr xs) = fmap_of_list (zip (map string_of_nat [0..<length xs]) xs)"
| "own_props (JStr s) =
     fmap_of_list (zip (map string_of_nat [0..<length s]) (map (\<lambda>c. JStr [c]) s))"
| "own_props v = fmempty"

text \<open>\<^verbatim>\<open>{...base, ...v}\<close>: the right operand wins on every property it has.\<close>

definition spread :: "obj \<Rightarrow> jsval \<Rightarrow> obj" where
  "spread base v = base ++\<^sub>f own_props v"

text \<open>
  \<^verbatim>\<open>JSON.parse(JSON.stringify(v))\<close>: a property whose value is \<open>undefined\<close> is
  dropped, an \<open>undefined\<close> array element and a non-finite number become \<open>null\<close>.
  \<open>JUndefined\<close> as a result stands for "nothing was serialised".
\<close>

primrec json_clone :: "jsval \<Rightarrow> jsval" where
  "json_clone JUndefined = JUndefined"
| "json_clone JNull = JNull"
| "json_clone (JBool b) = JBool b"
| "json_clone (JNum n) = (case n of Finite r \<Rightarrow> JNum n | NaN \<Rightarrow> JNull | Infinity b \<Rightarrow> JNull)"
| "json_clone (JStr s) = JStr s"
| "json_clone (JArr xs) =
     JArr (map (\<lambda>v. if v = JUndefined then JNull else v) (map json_clone xs))"
| "json_clone (JObj m) =
     JObj (fmfilter (\<lambda>k. fmlookup m k \<noteq> Some JUndefined) (fmmap json_clone m))"

definition clone_obj :: "obj \<Rightarrow> obj" where
  "clone_obj m = own_props (json_clone (JObj m))"

text \<open>
  \<^verbatim>\<open>v?.startsWith(p)\<close> used as a condition: \<open>undefined\<close> and \<open>null\<close> short-circuit
  to a falsy result, a string answers, and any other value has no callable
  \<^verbatim>\<open>startsWith\<close>, so the call throws.
\<close>

fun opt_startsWith :: "jsval \<Rightarrow> string \<Rightarrow> js_error + bool" where
  "opt_startsWith JUndefined p = Inr False"
| "opt_startsWith JNull p = Inr False"
| "opt_startsWith (JStr s) p = Inr (prefix p s)"
| "opt_startsWith v p = Inl TypeError"

text \<open>
  \<^verbatim>\<open>p.imageUrl\<close> on an array element: reading a property of \<open>undefined\<close> or
  \<open>null\<close> throws; no primitive wrapper or array prototype has this property.
\<close>

fun imageUrl_of :: "jsval \<Rightarrow> js_error + jsval" where
  "imageUrl_of JUndefined = Inl TypeError"
| "imageUrl_of JNull = Inl TypeError"
| "imageUrl_of (JObj m) = Inr (prop_of m ''imageUrl'')"
| "imageUrl_of v = Inr JUndefined"

text \<open>\<^verbatim>\<open>xs.map(f)\<close> where \<open>f\<close> may throw: the first exception ends the loop.\<close>

fun traverse :: "('a \<Rightarrow> js_error + 'b) \<Rightarrow> 'a list \<Rightarrow> js_error + 'b list" where
  "traverse f [] = Inr []"
| "traverse f (x # xs) =
     (case f x of
        Inl e \<Rightarrow> Inl e
      | Inr y \<Rightarrow> (case traverse f xs of Inl e \<Rightarrow> Inl e | Inr ys \<Rightarrow> Inr (y # ys)))"

text \<open>Only an array has a callable \<^verbatim>\<open>map\<close>.\<close>

fun array_map :: "(jsval \<Rightarrow> js_error + jsval) \<Rightarrow> jsval \<Rightarrow> js_error + jsval" where
  "array_map f (JArr xs) = (case traverse f xs of Inl e \<Rightarrow> Inl e | Inr ys \<Rightarrow> Inr (JArr ys))"
| "array_map f v = Inl TypeError"

section \<open>Modules the component imports\<close>

text \<open>
  \<^verbatim>\<open>./constants\<close>, \<^verbatim>\<open>./firebase\<close> and \<^verbatim>\<open>./types\<close> are imported by
  \<^verbatim>\<open>App.tsx\<close>; their exports are parameters of the model. The personal-info and
  theme constants are objects, the four content constants are arrays, as their
  declared types say.
\<close>

record constants =
  PERSONAL_INFO_VI :: obj
  WORK_EXPERIENCE_VI :: "jsval list"
  PROJECTS_VI :: "jsval list"
  CERTIFICATIONS_VI :: "jsval list"
  SKILLS_DATA_VI :: "jsval list"
  PERSONAL_INFO_EN :: obj
  WORK_EXPERIENCE_EN :: "jsval list"
  PROJECTS_EN :: "jsval list"
  CERTIFICATIONS_EN :: "jsval list"
  SKILLS_DATA_EN :: "jsval list"
  INITIAL_THEME_SETTINGS :: obj

text \<open>\<open>firestore\<close> is true when the client object exists (is truthy).\<close>

record firebase =
  firestore :: bool
  firebaseInitializationError :: "string option"

datatype page = Introduction | Experience | Projects | Certifications | Skills | Settings

section \<open>Component state\<close>

text \<open>
  The six persisted state cells, in the order of their \<^verbatim>\<open>useState\<close> calls. The
  two object-valued cells only ever receive objects (spreads, constants, the typed
  setters); a collection cell receives whatever \<^verbatim>\<open>data.x || base\<close> evaluates to.
\<close>

record content =
  personalInfo :: obj
  workExperience :: jsval
  projects :: jsval
  certifications :: jsval
  skills :: jsval
  themeSettings :: obj

record app = content +
  currentPage :: page
  selectedProject :: "jsval option"
  isAuthenticated :: bool
  isSiteUnlocked :: bool
  isLoading :: bool
  error :: "string option"

text \<open>
  What lies outside the component: the clock, the timers of the event loop (id, due
  time and argument of each pending callback), the \<^verbatim>\<open>timeout\<close> variable of the one
  debounce closure, and the log of operations attempted on the remote document.
\<close>

datatype store_op = DocGet | DocSet content

record world = app +
  clock :: nat
  timeout :: "nat option"
  next_timer :: nat
  timers :: "(nat \<times> nat \<times> content) list"
  store_log :: "(nat \<times> store_op) list"

definition init_world :: "constants \<Rightarrow> firebase \<Rightarrow> world" where
  "init_world C fb =
     \<lparr> personalInfo = PERSONAL_INFO_VI C,
       workExperience = JArr (WORK_EXPERIENCE_VI C),
       projects = JArr (PROJECTS_VI C),
       certifications = JArr (CERTIFICATIONS_VI C),
       skills = JArr (SKILLS_DATA_VI C),
       themeSettings = INITIAL_THEME_SETTINGS C,
       currentPage = Introduction,
       selectedProject = None,
       isAuthenticated = False,
       isSiteUnlocked = False,
       isLoading = True,
       error = firebaseInitializationError fb,
       clock = 0,
       timeout = None,
       next_timer = 1,
       timers = [],
       store_log = [] \<rparr>"

text \<open>The object literal \<^verbatim>\<open>{personalInfo, workExperience, ...}\<close> of the six cells.\<close>

definition stateToSave :: "'a content_scheme \<Rightarrow> content" where
  "stateToSave s =
     \<lparr> personalInfo = personalInfo s,
       workExperience = workExperience s,
       projects = projects s,
       certifications = certifications s,
       skills = skills s,
       themeSettings = themeSettings s \<rparr>"

section \<open>Locale defaults and the language effect\<close>

text \<open>The \<^verbatim>\<open>base...\<close> constants that \<^verbatim>\<open>fetchData\<close> picks by \<^verbatim>\<open>language === 'vi'\<close>.\<close>

definition basePersonalInfo :: "constants \<Rightarrow> string \<Rightarrow> obj" where
  "basePersonalInfo C language =
     (if language = ''vi'' then PERSONAL_INFO_VI C else PERSONAL_INFO_EN C)"

definition baseWorkExperience :: "constants \<Rightarrow> string \<Rightarrow> jsval" where
  "baseWorkExperience C language =
     JArr (if language = ''vi'' then WORK_EXPERIENCE_VI C else WORK_EXPERIENCE_EN C)"

definition baseProjects :: "constants \<Rightarrow> string \<Rightarrow> jsval" where
  "baseProjects C language = JArr (if language = ''vi'' then PROJECTS_VI C else PROJECTS_EN C)"

definition baseCertifications :: "constants \<Rightarrow> string \<Rightarrow> jsval" where
  "baseCertifications C language =
     JArr (if language = ''vi'' then CERTIFICATIONS_VI C else CERTIFICATIONS_EN C)"

definition baseSkills :: "constants \<Rightarrow> string \<Rightarrow> jsval" where
  "baseSkills C language = JArr (if language = ''vi'' then SKILLS_DATA_VI C else SKILLS_DATA_EN C)"

text \<open>The effect on \<^verbatim>\<open>[language]\<close> (lines 48 to 62).\<close>

definition language_effect :: "constants \<Rightarrow> string \<Rightarrow> 'a app_scheme \<Rightarrow> 'a app_scheme" where
  "language_effect C language s =
     (if language = ''vi'' then
        s\<lparr> personalInfo := spread (personalInfo s) (JObj (PERSONAL_INFO_VI C)),
           workExperience := JArr (WORK_EXPERIENCE_VI C),
           projects := JArr (PROJECTS_VI C),
           certifications := JArr (CERTIFICATIONS_VI C),
           skills := JArr (SKILLS_DATA_VI C) \<rparr>
      else
        s\<lparr> personalInfo := spread (personalInfo s) (JObj (PERSONAL_INFO_EN C)),
           workExperience := JArr (WORK_EXPERIENCE_EN C),
           projects := JArr (PROJECTS_EN C),
           certifications := JArr (CERTIFICATIONS_EN C),
           skills := JArr (SKILLS_DATA_EN C) \<rparr>)"

section \<open>Loading\<close>

text \<open>
  How \<^verbatim>\<open>await docRef.get()\<close> ends: the promise rejects, or it yields a snapshot
  with its \<^verbatim>\<open>exists\<close> flag and the result of \<^verbatim>\<open>data()\<close> (\<open>None\<close> for
  \<open>undefined\<close>). The second answer of the store, whether \<^verbatim>\<open>await docRef.set(...)\<close>
  resolves, is only asked for when the document does not exist.
\<close>

datatype get_result = GetRejected | Snapshot bool "obj option"

definition load_error_message :: string where
  "load_error_message =
     ''Could not load data from the cloud. Displaying default content. Please check Firestore permissions.''"

definition initialState :: "constants \<Rightarrow> content" where
  "initialState C =
     \<lparr> personalInfo = PERSONAL_INFO_VI C,
       workExperience = JArr (WORK_EXPERIENCE_VI C),
       projects = JArr (PROJECTS_VI C),
       certifications = JArr (CERTIFICATIONS_VI C),
       skills = JArr (SKILLS_DATA_VI C),
       themeSettings = INITIAL_THEME_SETTINGS C \<rparr>"

definition log_op :: "store_op \<Rightarrow> world \<Rightarrow> world" where
  "log_op op w = w\<lparr> store_log := store_log w @ [(clock w, op)] \<rparr>"

text \<open>
  \<^verbatim>\<open>fetchData\<close> (lines 86 to 123), with \<open>language\<close> the value its closure captured.
  The \<^verbatim>\<open>catch\<close> clause covers both awaits; \<^verbatim>\<open>finally\<close> always clears the loading flag.
\<close>

definition fetchData :: "constants \<Rightarrow> string \<Rightarrow> get_result \<Rightarrow> bool \<Rightarrow> world \<Rightarrow> world" where
  "fetchData C language got set_ok w =
     (let w1 = log_op DocGet w;
          w2 =
            (case got of
               GetRejected \<Rightarrow> w1\<lparr> error := Some load_error_message \<rparr>
             | Snapshot doc_exists data \<Rightarrow>
                 if doc_exists then
                   (case data of
                      None \<Rightarrow> w1
                    | Some d \<Rightarrow>
                        w1\<lparr> personalInfo :=
                              spread (basePersonalInfo C language)
                                (js_or (prop_of d ''personalInfo'') (JObj fmempty)),
                            workExperience :=
                              js_or (prop_of d ''workExperience'') (baseWorkExperience C language),
                            projects := js_or (prop_of d ''projects'') (baseProjects C language),
                            certifications :=
                              js_or (prop_of d ''certifications'') (baseCertifications C language),
                            skills := js_or (prop_of d ''skills'') (baseSkills C language),
                            themeSettings :=
                              spread (INITIAL_THEME_SETTINGS C)
                                (js_or (prop_of d ''themeSettings'') (JObj fmempty)) \<rparr>)
                 else
                   (let w3 = log_op (DocSet (initialState C)) w1
                    in if set_ok then w3 else w3\<lparr> error := Some load_error_message \<rparr>))
      in w2\<lparr> isLoading := False \<rparr>)"

text \<open>The effect that loads (lines 77 to 126).\<close>

definition load_effect ::
  "constants \<Rightarrow> firebase \<Rightarrow> string \<Rightarrow> get_result \<Rightarrow> bool \<Rightarrow> world \<Rightarrow> world" where
  "load_effect C fb language got set_ok w =
     (if \<not> firestore fb then w\<lparr> isLoading := False \<rparr>
      else fetchData C language got set_ok w)"

section \<open>Saving\<close>

definition project_placeholder :: string where
  "project_placeholder = ''https://picsum.photos/seed/project/600/400''"

definition cert_placeholder :: string where
  "cert_placeholder = ''https://picsum.photos/seed/cert/600/400''"

text \<open>\<^verbatim>\<open>if (o.k?.startsWith('data:')) o.k = ''\<close>\<close>

definition blank_inline :: "string \<Rightarrow> obj \<Rightarrow> js_error + obj" where
  "blank_inline k m =
     (case opt_startsWith (prop_of m k) ''data:'' of
        Inl e \<Rightarrow> Inl e
      | Inr b \<Rightarrow> Inr (if b then fmupd k (JStr []) m else m))"

text \<open>\<^verbatim>\<open>p => p.imageUrl?.startsWith('data:') ? { ...p, imageUrl: url } : p\<close>\<close>

definition replace_inline_image :: "string \<Rightarrow> jsval \<Rightarrow> js_error + jsval" where
  "replace_inline_image url p =
     (case imageUrl_of p of
        Inl e \<Rightarrow> Inl e
      | Inr u \<Rightarrow>
          (case opt_startsWith u ''data:'' of
             Inl e \<Rightarrow> Inl e
           | Inr b \<Rightarrow> Inr (if b then JObj (fmupd ''imageUrl'' (JStr url) (own_props p)) else p)))"

text \<open>
  \<^verbatim>\<open>JSON.parse(JSON.stringify(state))\<close> on the object of the six cells, cell by
  cell. A cell that is \<open>undefined\<close> is dropped by the copy and reads as
  \<open>undefined\<close> afterwards.
\<close>

definition deep_copy :: "content \<Rightarrow> content" where
  "deep_copy state =
     \<lparr> personalInfo = clone_obj (personalInfo state),
       workExperience = json_clone (workExperience state),
       projects = json_clone (projects state),
       certifications = json_clone (certifications state),
       skills = json_clone (skills state),
       themeSettings = clone_obj (themeSettings state) \<rparr>"

text \<open>
  Lines 135 to 141: the copy, the four top-level fields, the two collections. The
  result is the argument of \<^verbatim>\<open>set\<close>, or the exception the \<^verbatim>\<open>try\<close> block catches.
\<close>

definition sanitize :: "content \<Rightarrow> js_error + content" where
  "sanitize state =
     (let c = deep_copy state in
      (case blank_inline ''avatarUrl'' (personalInfo c) of Inl e \<Rightarrow> Inl e | Inr p1 \<Rightarrow>
      (case blank_inline ''logoUrl'' p1 of Inl e \<Rightarrow> Inl e | Inr p2 \<Rightarrow>
      (case blank_inline ''bgImageUrl'' (themeSettings c) of Inl e \<Rightarrow> Inl e | Inr t1 \<Rightarrow>
      (case blank_inline ''backgroundMusicUrl'' t1 of Inl e \<Rightarrow> Inl e | Inr t2 \<Rightarrow>
      (case array_map (replace_inline_image project_placeholder) (projects c) of
         Inl e \<Rightarrow> Inl e | Inr ps \<Rightarrow>
      (case array_map (replace_inline_image cert_placeholder) (certifications c) of
         Inl e \<Rightarrow> Inl e | Inr cs \<Rightarrow>
      Inr (c\<lparr> personalInfo := p2, themeSettings := t2,
              projects := ps, certifications := cs \<rparr>))))))))"

text \<open>
  The function handed to \<^verbatim>\<open>debounce\<close> (lines 130 to 147), run at time \<open>t\<close>. An
  exception of the \<^verbatim>\<open>try\<close> block, a rejected \<^verbatim>\<open>set\<close> included, is only printed.
\<close>

definition save_now :: "firebase \<Rightarrow> nat \<Rightarrow> content \<Rightarrow> world \<Rightarrow> world" where
  "save_now fb t state w =
     (if \<not> firestore fb then w
      else case sanitize state of
             Inl e \<Rightarrow> w
           | Inr payload \<Rightarrow> w\<lparr> store_log := store_log w @ [(t, DocSet payload)] \<rparr>)"

definition waitFor :: nat where
  "waitFor = 2000"

definition clearTimeout :: "nat \<Rightarrow> world \<Rightarrow> world" where
  "clearTimeout i w = w\<lparr> timers := filter (\<lambda>(j, due, a). j \<noteq> i) (timers w) \<rparr>"

definition setTimeout :: "content \<Rightarrow> nat \<Rightarrow> world \<Rightarrow> nat \<times> world" where
  "setTimeout a delay w =
     (next_timer w,
      w\<lparr> timers := timers w @ [(next_timer w, clock w + delay, a)],
         next_timer := Suc (next_timer w) \<rparr>)"

text \<open>
  The debounced \<^verbatim>\<open>saveStateToFirestore\<close>: the function \<^verbatim>\<open>debounce\<close> returns
  (lines 68 to 73), made once by \<^verbatim>\<open>useCallback\<close>. Timer ids start at 1, so a
  remembered id is truthy and \<^verbatim>\<open>if (timeout)\<close> is the test for \<open>Some\<close>. The variable
  is not reset when the callback runs; clearing an id that has already run removes
  nothing.
\<close>

definition saveStateToFirestore :: "content \<Rightarrow> world \<Rightarrow> world" where
  "saveStateToFirestore state w =
     (let w1 = (case timeout w of Some i \<Rightarrow> clearTimeout i w | None \<Rightarrow> w);
          (i, w2) = setTimeout state waitFor w1
      in w2\<lparr> timeout := Some i \<rparr>)"

text \<open>The effect that saves (lines 152 to 165).\<close>

definition save_effect :: "firebase \<Rightarrow> world \<Rightarrow> world" where
  "save_effect fb w =
     (if isLoading w \<or> \<not> firestore fb then w
      else saveStateToFirestore (stateToSave w) w)"

text \<open>
  \<open>d\<close> milliseconds pass: the callbacks that fall due run, the earliest first, each
  at its due time. The only callbacks ever scheduled are those of the debounced
  save, so running one is \<open>save_now\<close> on its argument.
\<close>

definition elapse :: "firebase \<Rightarrow> nat \<Rightarrow> world \<Rightarrow> world" where
  "elapse fb d w =
     (let t = clock w + d;
          due = filter (\<lambda>(i, due, a). due \<le> t) (timers w);
          rest = filter (\<lambda>(i, due, a). \<not> due \<le> t) (timers w)
      in (fold (\<lambda>(i, due, a). save_now fb due a) (sort_key (\<lambda>(i, due, a). due) due)
            (w\<lparr> timers := rest \<rparr>))\<lparr> clock := t \<rparr>)"

section \<open>Lock controller and handlers\<close>

text \<open>The dependency of the lock effect: \<^verbatim>\<open>themeSettings.isPasswordProtectionEnabled\<close>.\<close>

definition protection_flag :: "'a content_scheme \<Rightarrow> jsval" where
  "protection_flag s = prop_of (themeSettings s) ''isPasswordProtectionEnabled''"

text \<open>The effect on that dependency (lines 169 to 175).\<close>

definition lock_effect :: "'a app_scheme \<Rightarrow> 'a app_scheme" where
  "lock_effect s =
     (if truthy (protection_flag s) then s\<lparr> isSiteUnlocked := False \<rparr>
      else s\<lparr> isSiteUnlocked := True \<rparr>)"

text \<open>Line 307.\<close>

definition isLocked :: "'a app_scheme \<Rightarrow> bool" where
  "isLocked s = (truthy (protection_flag s) \<and> \<not> isSiteUnlocked s)"

text \<open>The handlers return the new state and their return value.\<close>

definition handleUnlockSite :: "string \<Rightarrow> 'a app_scheme \<Rightarrow> 'a app_scheme \<times> bool" where
  "handleUnlockSite password s =
     (if JStr password = prop_of (themeSettings s) ''sitePassword''
      then (s\<lparr> isSiteUnlocked := True \<rparr>, True)
      else (s, False))"

definition handleAdminLoginForUnlock ::
  "string \<Rightarrow> string \<Rightarrow> 'a app_scheme \<Rightarrow> 'a app_scheme \<times> bool" where
  "handleAdminLoginForUnlock username password s =
     (if username = ''Minh'' \<and> password = ''2004''
      then (s\<lparr> isSiteUnlocked := True \<rparr>, True)
      else (s, False))"

text \<open>The callback handed to the login page (line 296).\<close>

definition onLoginSuccess :: "'a app_scheme \<Rightarrow> 'a app_scheme" where
  "onLoginSuccess s = s\<lparr> isAuthenticated := True \<rparr>"

definition handleLogout :: "'a app_scheme \<Rightarrow> 'a app_scheme" where
  "handleLogout s = s\<lparr> isAuthenticated := False, currentPage := Introduction \<rparr>"

definition handlePageChange :: "page \<Rightarrow> 'a app_scheme \<Rightarrow> 'a app_scheme" where
  "handlePageChange p s = s\<lparr> selectedProject := None, currentPage := p \<rparr>"

section \<open>Rendering and the session\<close>

text \<open>
  After a render React runs again the effects one of whose dependencies changed.
  The dependencies of the save effect are the six cells and the loading flag (the
  debounced function is the same object in every render); the lock effect depends
  on the protection flag. The lock effect writes none of the save effect's
  dependencies, so one pass settles the state. Dependencies are compared by value
  here; React compares objects by identity, which differs only when a setter is
  given a new object equal to the old one.
\<close>

definition save_deps :: "'a app_scheme \<Rightarrow> content \<times> bool" where
  "save_deps s = (stateToSave s, isLoading s)"

definition rerun_effects :: "firebase \<Rightarrow> world \<Rightarrow> world \<Rightarrow> world" where
  "rerun_effects fb prev cur =
     (let w1 = (if protection_flag cur \<noteq> protection_flag prev then lock_effect cur else cur)
      in if save_deps w1 \<noteq> save_deps prev then save_effect fb w1 else w1)"

text \<open>
  What can happen to a mounted component. A change of language carries the
  answers the store gives to the load cycle it starts, and the cycle is run to its
  end at once: the continuation of \<^verbatim>\<open>fetchData\<close> reads only the language it
  captured and the constants. The six setters are the ones handed to the settings
  page.
\<close>

datatype event =
    SwitchLanguage string get_result bool
  | SetPersonalInfo obj
  | SetWorkExperience jsval
  | SetProjects jsval
  | SetCertifications jsval
  | SetSkills jsval
  | SetThemeSettings obj
  | UnlockSite string
  | AdminLoginForUnlock string string
  | LoginSuccess
  | Logout
  | PageChange page
  | Elapse nat

fun handle :: "constants \<Rightarrow> firebase \<Rightarrow> event \<Rightarrow> world \<Rightarrow> world" where
  "handle C fb (SwitchLanguage language got set_ok) w =
     load_effect C fb language got set_ok (language_effect C language w)"
| "handle C fb (SetPersonalInfo v) w = w\<lparr> personalInfo := v \<rparr>"
| "handle C fb (SetWorkExperience v) w = w\<lparr> workExperience := v \<rparr>"
| "handle C fb (SetProjects v) w = w\<lparr> projects := v \<rparr>"
| "handle C fb (SetCertifications v) w = w\<lparr> certifications := v \<rparr>"
| "handle C fb (SetSkills v) w = w\<lparr> skills := v \<rparr>"
| "handle C fb (SetThemeSettings v) w = w\<lparr> themeSettings := v \<rparr>"
| "handle C fb (UnlockSite password) w = fst (handleUnlockSite password w)"
| "handle C fb (AdminLoginForUnlock username password) w =
     fst (handleAdminLoginForUnlock username password w)"
| "handle C fb LoginSuccess w = onLoginSuccess w"
| "handle C fb Logout w = handleLogout w"
| "handle C fb (PageChange p) w = handlePageChange p w"
| "handle C fb (Elapse d) w = elapse fb d w"

definition step :: "constants \<Rightarrow> firebase \<Rightarrow> world \<Rightarrow> event \<Rightarrow> world" where
  "step C fb w e = rerun_effects fb w (handle C fb e w)"

text \<open>
  Mounting runs every effect once on the initial render: the language effect, the
  load effect, the save effect (which returns at once, the loading flag being set)
  and the lock effect, which reads the initial theme. The renders that follow run
  the effects whose dependencies changed.
\<close>

definition mount :: "constants \<Rightarrow> firebase \<Rightarrow> string \<Rightarrow> get_result \<Rightarrow> bool \<Rightarrow> world" where
  "mount C fb language got set_ok =
     (let w0 = init_world C fb;
          w1 = load_effect C fb language got set_ok (language_effect C language w0);
          w2 = w1\<lparr> isSiteUnlocked := isSiteUnlocked (lock_effect w0) \<rparr>
      in rerun_effects fb w0 w2)"

definition session ::
  "constants \<Rightarrow> firebase \<Rightarrow> string \<Rightarrow> get_result \<Rightarrow> bool \<Rightarrow> event list \<Rightarrow> world" where
  "session C fb language got set_ok es = foldl (step C fb) (mount C fb language got set_ok) es"

text \<open>Every pending callback is the one the debounce closure remembers.\<close>

definition debounce_inv :: "world \<Rightarrow> bool" where
  "debounce_inv w = list_all (\<lambda>(i, due, a). timeout w = Some i) (timers w)"

section \<open>The save body on a heap\<close>













section \<open>The rendered view\<close>

text \<open>
  What the component returns (lines 259 to 331), as the props it hands to its
  children: the spinner while loading, otherwise header, page, footer, music button
  and lock modal. The audio element and its playing flag are left out.
\<close>

datatype page_view =
    IntroductionPage obj jsval jsval jsval bool
  | ProjectDetailPage jsval
  | ExperiencePage jsval
  | ProjectsPage jsval
  | CertificationsPage jsval
  | SkillsPage jsval
  | SettingsPage content
  | LoginPage

record screen =
  header_currentPage :: page
  header_personalInfo :: obj
  header_isLocked :: bool
  header_isAuthenticated :: bool
  main_page :: page_view
  footer_personalInfo :: obj
  hasMusic :: bool
  lock_modal :: bool

datatype view = LoadingSpinner | Screen screen

definition renderPage :: "'a app_scheme \<Rightarrow> page_view" where
  "renderPage s =
     (if \<not> isSiteUnlocked s then
        IntroductionPage (personalInfo s) (workExperience s) (projects s) (certifications s) True
      else case selectedProject s of
        Some p \<Rightarrow> ProjectDetailPage p
      | None \<Rightarrow>
          (case currentPage s of
             Introduction \<Rightarrow>
               IntroductionPage (personalInfo s) (workExperience s) (projects s)
                 (certifications s) False
           | Experience \<Rightarrow> ExperiencePage (workExperience s)
           | Projects \<Rightarrow> ProjectsPage (projects s)
           | Certifications \<Rightarrow> CertificationsPage (certifications s)
           | Skills \<Rightarrow> SkillsPage (skills s)
           | Settings \<Rightarrow> if isAuthenticated s then SettingsPage (stateToSave s) else LoginPage))"

definition render :: "'a app_scheme \<Rightarrow> view" where
  "render s =
     (if isLoading s then LoadingSpinner
      else Screen
        \<lparr> header_currentPage = currentPage s,
          header_personalInfo = personalInfo s,
          header_isLocked = isLocked s,
          header_isAuthenticated = isAuthenticated s,
          main_page = renderPage s,
          footer_personalInfo = personalInfo s,
          hasMusic = truthy (prop_of (themeSettings s) ''backgroundMusicUrl''),
          lock_modal = isLocked s \<rparr>)"

section \<open>Predicates of the specification and example data\<close>

definition is_unlock :: "event \<Rightarrow> bool" where
  "is_unlock e =
     (case e of UnlockSite p \<Rightarrow> True | AdminLoginForUnlock u p \<Rightarrow> True | _ \<Rightarrow> False)"

text \<open>Protection on means the unlock flag is off; protection off means it is on.\<close>

definition lock_inv :: "world \<Rightarrow> bool" where
  "lock_inv w = (truthy (protection_flag w) \<longrightarrow> \<not> isSiteUnlocked w)"

definition unlocked_inv :: "world \<Rightarrow> bool" where
  "unlocked_inv w = (\<not> truthy (protection_flag w) \<longrightarrow> isSiteUnlocked w)"

text \<open>
  A small instance of the constants module, with different content for the two
  languages, and the two ways the firebase module can come up.
\<close>

definition sample_constants :: constants where
  "sample_constants =
     \<lparr> PERSONAL_INFO_VI =
         fmap_of_list [(''name'', JStr ''Minh''), (''title'', JStr ''Ky su phan mem'')],
       WORK_EXPERIENCE_VI = [JObj (fmap_of_list [(''title'', JStr ''Lap trinh vien'')])],
       PROJECTS_VI = [JObj (fmap_of_list [(''id'', JStr ''p1''), (''title'', JStr ''Du an'')])],
       CERTIFICATIONS_VI =
         [JObj (fmap_of_list [(''id'', JStr ''c1''), (''title'', JStr ''Chung chi'')])],
       SKILLS_DATA_VI = [JObj (fmap_of_list [(''category'', JStr ''Ngon ngu'')])],
       PERSONAL_INFO_EN =
         fmap_of_list [(''name'', JStr ''Minh''), (''title'', JStr ''Software engineer'')],
       WORK_EXPERIENCE_EN = [JObj (fmap_of_list [(''title'', JStr ''Developer'')])],
       PROJECTS_EN = [JObj (fmap_of_list [(''id'', JStr ''p1''), (''title'', JStr ''Project'')])],
       CERTIFICATIONS_EN =
         [JObj (fmap_of_list [(''id'', JStr ''c1''), (''title'', JStr ''Certificate'')])],
       SKILLS_DATA_EN = [JObj (fmap_of_list [(''category'', JStr ''Languages'')])],
       INITIAL_THEME_SETTINGS =
         fmap_of_list [(''bgColor'', JStr ''#0f172a''),
                       (''isPasswordProtectionEnabled'', JBool True),
                       (''sitePassword'', JStr ''abc123'')] \<rparr>"

definition local_mode :: firebase where
  "local_mode =
     \<lparr> firestore = False, firebaseInitializationError = Some ''Firebase is not configured.'' \<rparr>"

definition cloud_mode :: firebase where
  "cloud_mode = \<lparr> firestore = True, firebaseInitializationError = None \<rparr>"

definition open_theme :: obj where
  "open_theme =
     fmap_of_list [(''bgColor'', JStr ''#ffffff''), (''isPasswordProtectionEnabled'', JBool False)]"

text \<open>What a callback that falls due appends to the log of store operations.\<close>

definition written :: "firebase \<Rightarrow> nat \<times> nat \<times> content \<Rightarrow> (nat \<times> store_op) list" where
  "written fb x =
     (case x of (i, due, a) \<Rightarrow>
        if firestore fb then (case sanitize a of Inl e \<Rightarrow> [] | Inr p \<Rightarrow> [(due, DocSet p)]) else [])"

text \<open>The default bundle of a language, and a remote document for the examples.\<close>

definition locale_defaults :: "constants \<Rightarrow> string \<Rightarrow> content" where
  "locale_defaults C language =
     \<lparr> personalInfo = basePersonalInfo C language,
       workExperience = baseWorkExperience C language,
       projects = baseProjects C language,
       certifications = baseCertifications C language,
       skills = baseSkills C language,
       themeSettings = INITIAL_THEME_SETTINGS C \<rparr>"

definition remote_doc :: obj where
  "remote_doc =
     fmap_of_list
       [(''personalInfo'', JObj (fmap_of_list [(''title'', JStr ''CTO'')])),
        (''workExperience'', JArr []),
        (''projects'', JArr [JObj (fmap_of_list [(''id'', JStr ''p9'')])]),
        (''themeSettings'', JObj (fmap_of_list [(''bgColor'', JStr ''#123456'')]))]"

text \<open>A remote document that overrides one field of each merged object.\<close>

definition remote_profile :: obj where
  "remote_profile =
     fmap_of_list
       [(''personalInfo'', JObj (fmap_of_list [(''name'', JStr ''Minh Nguyen'')])),
        (''themeSettings'', JObj (fmap_of_list [(''bgColor'', JStr ''#123456'')]))]"

text \<open>The payloads of the writes in a log, oldest first.\<close>

fun payloads :: "(nat \<times> store_op) list \<Rightarrow> content list" where
  "payloads [] = []"
| "payloads ((t, DocGet) # xs) = payloads xs"
| "payloads ((t, DocSet p) # xs) = p # payloads xs"




text \<open>The value is a string that starts with the inline-payload marker.\<close>

definition is_inline :: "jsval \<Rightarrow> bool" where
  "is_inline v = (case v of JStr s \<Rightarrow> prefix ''data:'' s | _ \<Rightarrow> False)"





text \<open>The six setters handed to the settings page.\<close>

fun is_setter :: "event \<Rightarrow> bool" where
  "is_setter (SetPersonalInfo v) = True"
| "is_setter (SetWorkExperience v) = True"
| "is_setter (SetProjects v) = True"
| "is_setter (SetCertifications v) = True"
| "is_setter (SetSkills v) = True"
| "is_setter (SetThemeSettings v) = True"
| "is_setter e = False"

text \<open>A content mutation: a setter that changes one of the six cells.\<close>

definition mutates :: "constants \<Rightarrow> firebase \<Rightarrow> world \<Rightarrow> event \<Rightarrow> bool" where
  "mutates C fb w e = (is_setter e \<and> stateToSave (handle C fb e w) \<noteq> stateToSave w)"

text \<open>
  A burst continued from \<open>w\<close>: every further mutation comes less than the debounce
  interval after the one before it.
\<close>

fun quiet_burst :: "constants \<Rightarrow> firebase \<Rightarrow> world \<Rightarrow> (nat \<times> event) list \<Rightarrow> bool" where
  "quiet_burst C fb w [] = True"
| "quiet_burst C fb w ((d, e) # ms) =
     (d < waitFor \<and> mutates C fb (step C fb w (Elapse d)) e \<and>
      quiet_burst C fb (step C fb (step C fb w (Elapse d)) e) ms)"

definition burst_events :: "(nat \<times> event) list \<Rightarrow> event list" where
  "burst_events ms = concat (map (\<lambda>(d, e). [Elapse d, e]) ms)"

text \<open>Exactly one callback is pending: it is due one interval from now and carries the current cells.\<close>

definition armed :: "world \<Rightarrow> bool" where
  "armed w = (\<exists>i. timers w = [(i, clock w + waitFor, stateToSave w)] \<and> timeout w = Some i)"



text \<open>An edit of the personal info, and the payload the example burst ends in.\<close>

definition new_info :: obj where
  "new_info = fmap_of_list [(''name'', JStr ''Minh''), (''title'', JStr ''Tech lead''),
     (''avatarUrl'', JStr ''data:image/png;base64,iVBORw0KGgo='')]"

definition burst_payload :: content where
  "burst_payload =
     \<lparr> personalInfo = fmap_of_list [(''name'', JStr ''Minh''), (''title'', JStr ''Tech lead''),
         (''avatarUrl'', JStr [])],
       workExperience = JArr (WORK_EXPERIENCE_VI sample_constants),
       projects = JArr (PROJECTS_VI sample_constants),
       certifications = JArr (CERTIFICATIONS_VI sample_constants),
       skills = JArr [],
       themeSettings = open_theme \<rparr>"



text \<open>
  The shape the declared types give the designated fields: a URL field is a string
  or missing, the two image collections are arrays of objects.
\<close>

definition url_ok :: "jsval \<Rightarrow> bool" where
  "url_ok v = (case v of JUndefined \<Rightarrow> True | JNull \<Rightarrow> True | JStr s \<Rightarrow> True | _ \<Rightarrow> False)"

definition item_ok :: "jsval \<Rightarrow> bool" where
  "item_ok p = (case p of JObj m \<Rightarrow> url_ok (prop_of m ''imageUrl'') | _ \<Rightarrow> False)"

definition items_ok :: "jsval \<Rightarrow> bool" where
  "items_ok v = (case v of JArr xs \<Rightarrow> list_all item_ok xs | _ \<Rightarrow> False)"

definition well_shaped :: "content \<Rightarrow> bool" where
  "well_shaped c =
     (url_ok (prop_of (personalInfo c) ''avatarUrl'') \<and>
      url_ok (prop_of (personalInfo c) ''logoUrl'') \<and>
      url_ok (prop_of (themeSettings c) ''bgImageUrl'') \<and>
      url_ok (prop_of (themeSettings c) ''backgroundMusicUrl'') \<and>
      items_ok (projects c) \<and> items_ok (certifications c))"









section \<open>What each operation leaves alone\<close>

lemma stateToSave_other [simp]:
  "stateToSave (s\<lparr> currentPage := a1 \<rparr>) = stateToSave s"
  "stateToSave (s\<lparr> selectedProject := a2 \<rparr>) = stateToSave s"
  "stateToSave (s\<lparr> isAuthenticated := a3 \<rparr>) = stateToSave s"
  "stateToSave (s\<lparr> isSiteUnlocked := a4 \<rparr>) = stateToSave s"
  "stateToSave (s\<lparr> isLoading := a5 \<rparr>) = stateToSave s"
  "stateToSave (s\<lparr> error := a6 \<rparr>) = stateToSave s"
  "stateToSave (w\<lparr> clock := b1 \<rparr>) = stateToSave w"
  "stateToSave (w\<lparr> timeout := b2 \<rparr>) = stateToSave w"
  "stateToSave (w\<lparr> next_timer := b3 \<rparr>) = stateToSave w"
  "stateToSave (w\<lparr> timers := b4 \<rparr>) = stateToSave w"
  "stateToSave (w\<lparr> store_log := b5 \<rparr>) = stateToSave w"
  by (simp_all add: stateToSave_def)

lemma saveStateToFirestore_frame [simp]:
  "stateToSave (saveStateToFirestore a w) = stateToSave w"
  "themeSettings (saveStateToFirestore a w) = themeSettings w"
  "isAuthenticated (saveStateToFirestore a w) = isAuthenticated w"
  "isSiteUnlocked (saveStateToFirestore a w) = isSiteUnlocked w"
  "isLoading (saveStateToFirestore a w) = isLoading w"
  "error (saveStateToFirestore a w) = error w"
  "clock (saveStateToFirestore a w) = clock w"
  "store_log (saveStateToFirestore a w) = store_log w"
  by (simp_all add: saveStateToFirestore_def setTimeout_def clearTimeout_def
      split: option.splits)

lemma save_effect_frame [simp]:
  "stateToSave (save_effect fb w) = stateToSave w"
  "themeSettings (save_effect fb w) = themeSettings w"
  "isAuthenticated (save_effect fb w) = isAuthenticated w"
  "isSiteUnlocked (save_effect fb w) = isSiteUnlocked w"
  "isLoading (save_effect fb w) = isLoading w"
  "error (save_effect fb w) = error w"
  "clock (save_effect fb w) = clock w"
  "store_log (save_effect fb w) = store_log w"
  by (simp_all add: save_effect_def)

lemma protection_flag_cong: "themeSettings a = themeSettings b \<Longrightarrow> protection_flag a = protection_flag b"
  by (simp add: protection_flag_def)

lemma save_effect_flag [simp]: "protection_flag (save_effect fb w) = protection_flag w"
  by (simp add: protection_flag_def)

lemma save_now_frame [simp]:
  "stateToSave (save_now fb t a w) = stateToSave w"
  "themeSettings (save_now fb t a w) = themeSettings w"
  "isAuthenticated (save_now fb t a w) = isAuthenticated w"
  "isSiteUnlocked (save_now fb t a w) = isSiteUnlocked w"
  "isLoading (save_now fb t a w) = isLoading w"
  "error (save_now fb t a w) = error w"
  "clock (save_now fb t a w) = clock w"
  "timers (save_now fb t a w) = timers w"
  "timeout (save_now fb t a w) = timeout w"
  "next_timer (save_now fb t a w) = next_timer w"
  by (simp_all add: save_now_def split: sum.splits)

lemma fire_frame:
  assumes "\<And>t a w. f (save_now fb t a w) = f w"
  shows "f (fold (\<lambda>(i, due, a). save_now fb due a) xs w) = f w"
  using assms by (induction xs arbitrary: w) (simp_all add: case_prod_beta)

lemma elapse_frame [simp]:
  "stateToSave (elapse fb d w) = stateToSave w"
  "themeSettings (elapse fb d w) = themeSettings w"
  "isAuthenticated (elapse fb d w) = isAuthenticated w"
  "isSiteUnlocked (elapse fb d w) = isSiteUnlocked w"
  "isLoading (elapse fb d w) = isLoading w"
  "error (elapse fb d w) = error w"
  "timeout (elapse fb d w) = timeout w"
  "next_timer (elapse fb d w) = next_timer w"
  "clock (elapse fb d w) = clock w + d"
  by (simp_all add: elapse_def Let_def fire_frame)

lemma elapse_flag [simp]: "protection_flag (elapse fb d w) = protection_flag w"
  by (simp add: protection_flag_def)

lemma rerun_lock_inv:
  "protection_flag cur = protection_flag prev \<Longrightarrow> lock_inv cur \<Longrightarrow> lock_inv (rerun_effects fb prev cur)"
  "protection_flag cur \<noteq> protection_flag prev \<Longrightarrow> lock_inv (rerun_effects fb prev cur)"
  by (simp_all add: rerun_effects_def lock_inv_def lock_effect_def Let_def protection_flag_def)

lemma log_op_frame [simp]:
  "stateToSave (log_op op w) = stateToSave w"
  "themeSettings (log_op op w) = themeSettings w"
  "isAuthenticated (log_op op w) = isAuthenticated w"
  "isSiteUnlocked (log_op op w) = isSiteUnlocked w"
  "isLoading (log_op op w) = isLoading w"
  "error (log_op op w) = error w"
  "clock (log_op op w) = clock w"
  "timers (log_op op w) = timers w"
  "timeout (log_op op w) = timeout w"
  "next_timer (log_op op w) = next_timer w"
  by (simp_all add: log_op_def)

lemma language_effect_frame [simp]:
  "themeSettings (language_effect C l s) = themeSettings s"
  "isAuthenticated (language_effect C l s) = isAuthenticated s"
  "isSiteUnlocked (language_effect C l s) = isSiteUnlocked s"
  "isLoading (language_effect C l s) = isLoading s"
  "error (language_effect C l s) = error s"
  "clock (language_effect C l w) = clock w"
  "timers (language_effect C l w) = timers w"
  "timeout (language_effect C l w) = timeout w"
  "next_timer (language_effect C l w) = next_timer w"
  "store_log (language_effect C l w) = store_log w"
  by (simp_all add: language_effect_def)

lemma fetchData_frame [simp]:
  "isAuthenticated (fetchData C l got ok w) = isAuthenticated w"
  "isSiteUnlocked (fetchData C l got ok w) = isSiteUnlocked w"
  "isLoading (fetchData C l got ok w) = False"
  "clock (fetchData C l got ok w) = clock w"
  "timers (fetchData C l got ok w) = timers w"
  "timeout (fetchData C l got ok w) = timeout w"
  "next_timer (fetchData C l got ok w) = next_timer w"
  by (simp_all add: fetchData_def Let_def split: get_result.splits option.splits)

lemma load_effect_frame [simp]:
  "isAuthenticated (load_effect C fb l got ok w) = isAuthenticated w"
  "isSiteUnlocked (load_effect C fb l got ok w) = isSiteUnlocked w"
  "isLoading (load_effect C fb l got ok w) = False"
  "clock (load_effect C fb l got ok w) = clock w"
  "timers (load_effect C fb l got ok w) = timers w"
  "timeout (load_effect C fb l got ok w) = timeout w"
  "next_timer (load_effect C fb l got ok w) = next_timer w"
  by (simp_all add: load_effect_def)

lemma handle_unlocked:
  "\<not> is_unlock e \<Longrightarrow> isSiteUnlocked (handle C fb e w) = isSiteUnlocked w"
  by (cases e) (simp_all add: is_unlock_def onLoginSuccess_def handleLogout_def handlePageChange_def)

lemma step_lock_inv:
  assumes "\<not> is_unlock e" and "lock_inv w"
  shows "lock_inv (step C fb w e)"
proof (cases "protection_flag (handle C fb e w) = protection_flag w")
  case True
  with assms have "lock_inv (handle C fb e w)"
    by (simp add: lock_inv_def handle_unlocked)
  with True show ?thesis
    unfolding step_def by (rule rerun_lock_inv(1))
next
  case False
  then show ?thesis
    unfolding step_def by (rule rerun_lock_inv(2))
qed

lemma mount_lock_inv: "lock_inv (mount C fb l got ok)"
proof -
  let ?w0 = "init_world C fb"
  let ?w1 = "load_effect C fb l got ok (language_effect C l ?w0)"
  let ?w2 = "?w1\<lparr> isSiteUnlocked := isSiteUnlocked (lock_effect ?w0) \<rparr>"
  show ?thesis
  proof (cases "protection_flag ?w2 = protection_flag ?w0")
    case True
    have "lock_inv ?w2"
      using True by (simp add: lock_inv_def lock_effect_def)
    with True show ?thesis
      unfolding mount_def Let_def by (rule rerun_lock_inv(1))
  next
    case False
    then show ?thesis
      unfolding mount_def Let_def by (rule rerun_lock_inv(2))
  qed
qed

lemma session_lock_inv:
  "list_all (\<lambda>e. \<not> is_unlock e) es \<Longrightarrow> lock_inv (session C fb l got ok es)"
proof (induction es rule: rev_induct)
  case Nil
  then show ?case by (simp add: session_def mount_lock_inv)
next
  case (snoc e es)
  then show ?case by (simp add: session_def step_lock_inv)
qed

lemma lock_effect_frame [simp]:
  "stateToSave (lock_effect s) = stateToSave s"
  "themeSettings (lock_effect s) = themeSettings s"
  "isAuthenticated (lock_effect s) = isAuthenticated s"
  "isLoading (lock_effect s) = isLoading s"
  "error (lock_effect s) = error s"
  "clock (lock_effect w) = clock w"
  "timers (lock_effect w) = timers w"
  "timeout (lock_effect w) = timeout w"
  "next_timer (lock_effect w) = next_timer w"
  "store_log (lock_effect w) = store_log w"
  by (simp_all add: lock_effect_def)

lemma rerun_effects_frame [simp]:
  "stateToSave (rerun_effects fb prev cur) = stateToSave cur"
  "themeSettings (rerun_effects fb prev cur) = themeSettings cur"
  "isAuthenticated (rerun_effects fb prev cur) = isAuthenticated cur"
  "isLoading (rerun_effects fb prev cur) = isLoading cur"
  "error (rerun_effects fb prev cur) = error cur"
  "clock (rerun_effects fb prev cur) = clock cur"
  "store_log (rerun_effects fb prev cur) = store_log cur"
  by (simp_all add: rerun_effects_def Let_def)


section \<open>Evaluation of concrete sessions\<close>

lemmas eval_defs = session_def mount_def step_def rerun_effects_def init_world_def load_effect_def
  fetchData_def language_effect_def lock_effect_def protection_flag_def prop_of_def save_deps_def
  save_effect_def saveStateToFirestore_def setTimeout_def clearTimeout_def log_op_def stateToSave_def
  handlePageChange_def handleUnlockSite_def isLocked_def spread_def js_or_def waitFor_def
  sample_constants_def local_mode_def cloud_mode_def Let_def open_theme_def

section \<open>The lock controller\<close>

lemma rerun_unlocked_inv:
  "protection_flag cur = protection_flag prev \<Longrightarrow> unlocked_inv cur \<Longrightarrow> unlocked_inv (rerun_effects fb prev cur)"
  "protection_flag cur \<noteq> protection_flag prev \<Longrightarrow> unlocked_inv (rerun_effects fb prev cur)"
  by (simp_all add: rerun_effects_def unlocked_inv_def lock_effect_def Let_def protection_flag_def)

lemma handle_stays_unlocked:
  "isSiteUnlocked w \<Longrightarrow> isSiteUnlocked (handle C fb e w)"
  by (cases e) (simp_all add: onLoginSuccess_def handleLogout_def handlePageChange_def
      handleUnlockSite_def handleAdminLoginForUnlock_def)

lemma step_unlocked_inv:
  assumes "unlocked_inv w"
  shows "unlocked_inv (step C fb w e)"
proof (cases "protection_flag (handle C fb e w) = protection_flag w")
  case True
  with assms have "unlocked_inv (handle C fb e w)"
    by (auto simp add: unlocked_inv_def handle_stays_unlocked)
  with True show ?thesis
    unfolding step_def by (rule rerun_unlocked_inv(1))
next
  case False
  then show ?thesis
    unfolding step_def by (rule rerun_unlocked_inv(2))
qed

lemma mount_unlocked_inv: "unlocked_inv (mount C fb l got ok)"
proof -
  let ?w0 = "init_world C fb"
  let ?w1 = "load_effect C fb l got ok (language_effect C l ?w0)"
  let ?w2 = "?w1\<lparr> isSiteUnlocked := isSiteUnlocked (lock_effect ?w0) \<rparr>"
  show ?thesis
  proof (cases "protection_flag ?w2 = protection_flag ?w0")
    case True
    have "unlocked_inv ?w2"
      using True by (simp add: unlocked_inv_def lock_effect_def)
    with True show ?thesis
      unfolding mount_def Let_def by (rule rerun_unlocked_inv(1))
  next
    case False
    then show ?thesis
      unfolding mount_def Let_def by (rule rerun_unlocked_inv(2))
  qed
qed

lemma session_unlocked_inv: "unlocked_inv (session C fb l got ok es)"
proof (induction es rule: rev_induct)
  case Nil
  then show ?case by (simp add: session_def mount_unlocked_inv)
next
  case (snoc e es)
  then show ?case by (simp add: session_def step_unlocked_inv)
qed

lemma rerun_same_deps:
  "protection_flag cur = protection_flag prev \<Longrightarrow> save_deps cur = save_deps prev \<Longrightarrow>
   rerun_effects fb prev cur = cur"
  by (simp add: rerun_effects_def)

lemma step_UnlockSite:
  "step C fb w (UnlockSite pw) =
     (if JStr pw = prop_of (themeSettings w) ''sitePassword'' then w\<lparr> isSiteUnlocked := True \<rparr> else w)"
  by (simp add: step_def handleUnlockSite_def rerun_same_deps protection_flag_def save_deps_def)

lemma step_AdminLoginForUnlock:
  "step C fb w (AdminLoginForUnlock u p) =
     (if u = ''Minh'' \<and> p = ''2004'' then w\<lparr> isSiteUnlocked := True \<rparr> else w)"
  by (simp add: step_def handleAdminLoginForUnlock_def rerun_same_deps protection_flag_def save_deps_def)

lemma step_LoginSuccess: "step C fb w LoginSuccess = w\<lparr> isAuthenticated := True \<rparr>"
  by (simp add: step_def onLoginSuccess_def rerun_same_deps protection_flag_def save_deps_def)

text \<open>
  C2. The lock state machine. In a session in which no unlock was submitted, the
  site is locked whenever password protection is on. Submitting a password that is
  exactly \<^verbatim>\<open>themeSettings.sitePassword\<close> returns true and unlocks; any other password
  returns false and changes nothing. Whenever protection is off, in any reachable
  state, the site is unlocked.
\<close>

theorem lock_state_machine:
  "(list_all (\<lambda>e. \<not> is_unlock e) es \<and> truthy (protection_flag (session C fb l got ok es))
      \<longrightarrow> isLocked (session C fb l got ok es)) \<and>
   (JStr pw = prop_of (themeSettings w) ''sitePassword''
      \<longrightarrow> handleUnlockSite pw w = (w\<lparr> isSiteUnlocked := True \<rparr>, True) \<and>
          step C fb w (UnlockSite pw) = w\<lparr> isSiteUnlocked := True \<rparr> \<and>
          \<not> isLocked (step C fb w (UnlockSite pw))) \<and>
   (JStr pw \<noteq> prop_of (themeSettings w) ''sitePassword''
      \<longrightarrow> handleUnlockSite pw w = (w, False) \<and> step C fb w (UnlockSite pw) = w) \<and>
   (\<not> truthy (protection_flag (session C fb l got ok es))
      \<longrightarrow> isSiteUnlocked (session C fb l got ok es) \<and> \<not> isLocked (session C fb l got ok es))"
proof -
  have a: "list_all (\<lambda>e. \<not> is_unlock e) es \<Longrightarrow> truthy (protection_flag (session C fb l got ok es))
      \<Longrightarrow> isLocked (session C fb l got ok es)"
    using session_lock_inv [of es C fb l got ok] by (simp add: lock_inv_def isLocked_def)
  have d: "\<not> truthy (protection_flag (session C fb l got ok es))
      \<Longrightarrow> isSiteUnlocked (session C fb l got ok es) \<and> \<not> isLocked (session C fb l got ok es)"
    using session_unlocked_inv [of C fb l got ok es] by (simp add: unlocked_inv_def isLocked_def)
  show ?thesis
    using a d by (simp add: step_UnlockSite handleUnlockSite_def isLocked_def)
qed

theorem lock_state_machine_witness:
  "isLocked (session sample_constants cloud_mode ''vi'' GetRejected True [PageChange Projects]) \<and>
   handleUnlockSite ''abc123'' (mount sample_constants cloud_mode ''vi'' GetRejected True) =
     ((mount sample_constants cloud_mode ''vi'' GetRejected True)\<lparr> isSiteUnlocked := True \<rparr>, True) \<and>
   \<not> isLocked (step sample_constants cloud_mode (mount sample_constants cloud_mode ''vi'' GetRejected True)
        (UnlockSite ''abc123'')) \<and>
   handleUnlockSite ''wrong'' (mount sample_constants cloud_mode ''vi'' GetRejected True) =
     (mount sample_constants cloud_mode ''vi'' GetRejected True, False) \<and>
   isSiteUnlocked (session sample_constants local_mode ''en'' GetRejected True [SetThemeSettings open_theme])"
proof -
  let ?m = "mount sample_constants cloud_mode ''vi'' GetRejected True"
  have h1: "list_all (\<lambda>e. \<not> is_unlock e) [PageChange Projects] \<and>
      truthy (protection_flag (session sample_constants cloud_mode ''vi'' GetRejected True [PageChange Projects]))"
    by (simp add: eval_defs is_unlock_def)
  have h2: "JStr ''abc123'' = prop_of (themeSettings ?m) ''sitePassword''"
    by (simp add: eval_defs)
  have h3: "JStr ''wrong'' \<noteq> prop_of (themeSettings ?m) ''sitePassword''"
    by (simp add: eval_defs)
  have h4: "\<not> truthy (protection_flag
      (session sample_constants local_mode ''en'' GetRejected True [SetThemeSettings open_theme]))"
    by (simp add: session_def step_def protection_flag_def open_theme_def prop_of_def)
  show ?thesis
    using h1 h2 h3 h4
      lock_state_machine [of "[PageChange Projects]" sample_constants cloud_mode "''vi''" GetRejected True
        "''abc123''" ?m]
      lock_state_machine [of "[PageChange Projects]" sample_constants cloud_mode "''vi''" GetRejected True
        "''wrong''" ?m]
      lock_state_machine [of "[SetThemeSettings open_theme]" sample_constants local_mode "''en''"
        GetRejected True "''wrong''" ?m]
    by blast
qed

section \<open>Writes caused by elapsing time\<close>

lemma fire_log:
  "store_log (fold (\<lambda>(i, due, a). save_now fb due a) xs w) =
   store_log w @ concat (map (written fb) xs)"
  by (induction xs arbitrary: w)
     (simp_all add: case_prod_beta save_now_def written_def split: sum.splits)

lemma elapse_log:
  "store_log (elapse fb d w) =
   store_log w @ concat (map (written fb)
     (sort_key (\<lambda>(i, due, a). due) (filter (\<lambda>(i, due, a). due \<le> clock w + d) (timers w))))"
  by (simp add: elapse_def Let_def fire_log)

lemma elapse_log_unlock:
  "store_log (elapse fb d (w\<lparr> isSiteUnlocked := b \<rparr>)) = store_log (elapse fb d w)"
  by (simp add: elapse_log)

section \<open>Administrator unlock and login\<close>

text \<open>
  C9. Submitting the pair \<^verbatim>\<open>("Minh", "2004")\<close> to the administrator unlock returns
  true and unlocks without touching the authentication flag; any other pair returns
  false and changes nothing. The login callback of the settings page sets the
  authentication flag and leaves the lock state as it was.
\<close>

theorem admin_unlock_and_login:
  "handleAdminLoginForUnlock ''Minh'' ''2004'' w = (w\<lparr> isSiteUnlocked := True \<rparr>, True) \<and>
   step C fb w (AdminLoginForUnlock ''Minh'' ''2004'') = w\<lparr> isSiteUnlocked := True \<rparr> \<and>
   \<not> isLocked (step C fb w (AdminLoginForUnlock ''Minh'' ''2004'')) \<and>
   isAuthenticated (step C fb w (AdminLoginForUnlock ''Minh'' ''2004'')) = isAuthenticated w \<and>
   (\<not> (u = ''Minh'' \<and> p = ''2004'') \<longrightarrow>
      handleAdminLoginForUnlock u p w = (w, False) \<and> step C fb w (AdminLoginForUnlock u p) = w) \<and>
   step C fb w LoginSuccess = w\<lparr> isAuthenticated := True \<rparr> \<and>
   isAuthenticated (onLoginSuccess w) \<and>
   isSiteUnlocked (onLoginSuccess w) = isSiteUnlocked w \<and>
   isLocked (step C fb w LoginSuccess) = isLocked w"
  by (simp add: step_AdminLoginForUnlock step_LoginSuccess handleAdminLoginForUnlock_def
      onLoginSuccess_def isLocked_def protection_flag_def)

theorem admin_unlock_and_login_witness:
  "\<not> (''Minh'' = ''Minh'' \<and> ''2005'' = ''2004'') \<and>
   handleAdminLoginForUnlock ''Minh'' ''2005'' (mount sample_constants cloud_mode ''vi'' GetRejected True) =
     (mount sample_constants cloud_mode ''vi'' GetRejected True, False)"
  using admin_unlock_and_login [of "mount sample_constants cloud_mode ''vi'' GetRejected True"
      sample_constants cloud_mode "''Minh''" "''2005''"]
  by simp

section \<open>Unlocking never saves\<close>

text \<open>
  C10. Both unlock operations change at most the unlock flag: the six persisted
  cells, the pending callbacks and the log of store operations stay as they were,
  and the time that passes afterwards produces the same writes as if no unlock had
  been submitted. The save effect schedules nothing when its dependencies (the six
  cells and the loading flag) are unchanged.
\<close>

theorem unlock_changes_only_lock_flag:
  "(\<exists>b. step C fb w (UnlockSite pw) = w\<lparr> isSiteUnlocked := b \<rparr>) \<and>
   (\<exists>b. step C fb w (AdminLoginForUnlock u p) = w\<lparr> isSiteUnlocked := b \<rparr>) \<and>
   stateToSave (step C fb w (UnlockSite pw)) = stateToSave w \<and>
   stateToSave (step C fb w (AdminLoginForUnlock u p)) = stateToSave w \<and>
   timers (step C fb w (UnlockSite pw)) = timers w \<and>
   timers (step C fb w (AdminLoginForUnlock u p)) = timers w \<and>
   store_log (step C fb w (UnlockSite pw)) = store_log w \<and>
   store_log (step C fb w (AdminLoginForUnlock u p)) = store_log w \<and>
   store_log (elapse fb d (step C fb w (UnlockSite pw))) = store_log (elapse fb d w) \<and>
   store_log (elapse fb d (step C fb w (AdminLoginForUnlock u p))) = store_log (elapse fb d w) \<and>
   (save_deps cur = save_deps w \<longrightarrow>
      timers (rerun_effects fb w cur) = timers cur \<and>
      timeout (rerun_effects fb w cur) = timeout cur \<and>
      store_log (rerun_effects fb w cur) = store_log cur)"
proof -
  have 1: "\<exists>b. step C fb w (UnlockSite pw) = w\<lparr> isSiteUnlocked := b \<rparr>"
  proof (cases "JStr pw = prop_of (themeSettings w) ''sitePassword''")
    case True
    then have "step C fb w (UnlockSite pw) = w\<lparr> isSiteUnlocked := True \<rparr>"
      by (simp add: step_UnlockSite)
    then show ?thesis ..
  next
    case False
    then have "step C fb w (UnlockSite pw) = w\<lparr> isSiteUnlocked := isSiteUnlocked w \<rparr>"
      by (simp add: step_UnlockSite)
    then show ?thesis ..
  qed
  have 2: "\<exists>b. step C fb w (AdminLoginForUnlock u p) = w\<lparr> isSiteUnlocked := b \<rparr>"
  proof (cases "u = ''Minh'' \<and> p = ''2004''")
    case True
    then have "step C fb w (AdminLoginForUnlock u p) = w\<lparr> isSiteUnlocked := True \<rparr>"
      by (simp add: step_AdminLoginForUnlock)
    then show ?thesis ..
  next
    case False
    then have "step C fb w (AdminLoginForUnlock u p) = w\<lparr> isSiteUnlocked := isSiteUnlocked w \<rparr>"
      by (auto simp add: step_AdminLoginForUnlock)
    then show ?thesis ..
  qed
  have 3: "save_deps cur = save_deps w \<Longrightarrow>
      timers (rerun_effects fb w cur) = timers cur \<and>
      timeout (rerun_effects fb w cur) = timeout cur \<and>
      store_log (rerun_effects fb w cur) = store_log cur"
    by (simp add: rerun_effects_def Let_def save_deps_def)
  from 1 obtain b1 where b1: "step C fb w (UnlockSite pw) = w\<lparr> isSiteUnlocked := b1 \<rparr>" ..
  from 2 obtain b2 where b2: "step C fb w (AdminLoginForUnlock u p) = w\<lparr> isSiteUnlocked := b2 \<rparr>" ..
  have 4: "stateToSave (step C fb w (UnlockSite pw)) = stateToSave w \<and>
      timers (step C fb w (UnlockSite pw)) = timers w \<and>
      store_log (step C fb w (UnlockSite pw)) = store_log w \<and>
      store_log (elapse fb d (step C fb w (UnlockSite pw))) = store_log (elapse fb d w)"
    by (simp add: b1 elapse_log_unlock)
  have 5: "stateToSave (step C fb w (AdminLoginForUnlock u p)) = stateToSave w \<and>
      timers (step C fb w (AdminLoginForUnlock u p)) = timers w \<and>
      store_log (step C fb w (AdminLoginForUnlock u p)) = store_log w \<and>
      store_log (elapse fb d (step C fb w (AdminLoginForUnlock u p))) = store_log (elapse fb d w)"
    by (simp add: b2 elapse_log_unlock)
  from 1 2 3 4 5 show ?thesis by blast
qed


theorem unlock_changes_only_lock_flag_witness:
  "save_deps ((mount sample_constants cloud_mode ''vi'' GetRejected True)\<lparr> isSiteUnlocked := True \<rparr>) =
     save_deps (mount sample_constants cloud_mode ''vi'' GetRejected True) \<and>
   timers (rerun_effects cloud_mode (mount sample_constants cloud_mode ''vi'' GetRejected True)
       ((mount sample_constants cloud_mode ''vi'' GetRejected True)\<lparr> isSiteUnlocked := True \<rparr>)) =
     timers (mount sample_constants cloud_mode ''vi'' GetRejected True)"
  using unlock_changes_only_lock_flag [of sample_constants cloud_mode
      "mount sample_constants cloud_mode ''vi'' GetRejected True" "''abc123''" "''Minh''" "''2004''" 0
      "(mount sample_constants cloud_mode ''vi'' GetRejected True)\<lparr> isSiteUnlocked := True \<rparr>"]
  by (simp add: save_deps_def)

section \<open>The cells after a load\<close>

lemma stateToSave_sel [simp]:
  "personalInfo (stateToSave s) = personalInfo s"
  "workExperience (stateToSave s) = workExperience s"
  "projects (stateToSave s) = projects s"
  "certifications (stateToSave s) = certifications s"
  "skills (stateToSave s) = skills s"
  "themeSettings (stateToSave s) = themeSettings s"
  by (simp_all add: stateToSave_def)

lemma rerun_effects_cells [simp]:
  "personalInfo (rerun_effects fb prev cur) = personalInfo cur"
  "workExperience (rerun_effects fb prev cur) = workExperience cur"
  "projects (rerun_effects fb prev cur) = projects cur"
  "certifications (rerun_effects fb prev cur) = certifications cur"
  "skills (rerun_effects fb prev cur) = skills cur"
  by (simp_all add: rerun_effects_def Let_def lock_effect_def save_effect_def
      saveStateToFirestore_def setTimeout_def clearTimeout_def split: option.splits)

lemma language_effect_cells [simp]:
  "personalInfo (language_effect C l s) = personalInfo s ++\<^sub>f basePersonalInfo C l"
  "workExperience (language_effect C l s) = baseWorkExperience C l"
  "projects (language_effect C l s) = baseProjects C l"
  "certifications (language_effect C l s) = baseCertifications C l"
  "skills (language_effect C l s) = baseSkills C l"
  by (simp_all add: language_effect_def spread_def basePersonalInfo_def baseWorkExperience_def
      baseProjects_def baseCertifications_def baseSkills_def)

lemma own_props_js_or [simp]: "own_props (js_or x (JObj fmempty)) = own_props x"
  by (cases x) (auto simp add: js_or_def)

lemma fetchData_exists:
  "fetchData C language (Snapshot True (Some d)) set_ok w =
     (log_op DocGet w)
       \<lparr> personalInfo := basePersonalInfo C language ++\<^sub>f own_props (prop_of d ''personalInfo''),
         workExperience := js_or (prop_of d ''workExperience'') (baseWorkExperience C language),
         projects := js_or (prop_of d ''projects'') (baseProjects C language),
         certifications := js_or (prop_of d ''certifications'') (baseCertifications C language),
         skills := js_or (prop_of d ''skills'') (baseSkills C language),
         themeSettings := INITIAL_THEME_SETTINGS C ++\<^sub>f own_props (prop_of d ''themeSettings''),
         isLoading := False \<rparr>"
  by (simp add: fetchData_def Let_def spread_def)


text \<open>
  C1. For an existing document \<open>d\<close>, loading leaves in \<^verbatim>\<open>personalInfo\<close> the
  personal-info constant of the active language (\<^verbatim>\<open>PERSONAL_INFO_VI\<close> for
  \<^verbatim>\<open>'vi'\<close>, \<^verbatim>\<open>PERSONAL_INFO_EN\<close> otherwise) overridden by the own properties of
  \<^verbatim>\<open>d.personalInfo\<close>, and in \<^verbatim>\<open>themeSettings\<close> the constant
  \<^verbatim>\<open>INITIAL_THEME_SETTINGS\<close> overridden by those of \<^verbatim>\<open>d.themeSettings\<close>: a field the
  document has reads as in the document, a field it lacks reads as in the constant,
  and a missing sub-object leaves the constant alone.
\<close>

theorem load_merges_over_defaults:
  fixes C :: constants and fb :: firebase and language :: string and d :: obj
    and set_ok :: bool and w :: world
  assumes "firestore fb"
  defines "w' \<equiv> load_effect C fb language (Snapshot True (Some d)) set_ok w"
  defines "base \<equiv> (if language = ''vi'' then PERSONAL_INFO_VI C else PERSONAL_INFO_EN C)"
  shows
    "personalInfo w' = base ++\<^sub>f own_props (prop_of d ''personalInfo'') \<and>
     themeSettings w' = INITIAL_THEME_SETTINGS C ++\<^sub>f own_props (prop_of d ''themeSettings'') \<and>
     (prop_of d ''personalInfo'' = JObj r \<longrightarrow>
        fmlookup (personalInfo w') k =
          (case fmlookup r k of Some v \<Rightarrow> Some v | None \<Rightarrow> fmlookup base k)) \<and>
     (prop_of d ''themeSettings'' = JObj r' \<longrightarrow>
        fmlookup (themeSettings w') k =
          (case fmlookup r' k of Some v \<Rightarrow> Some v | None \<Rightarrow> fmlookup (INITIAL_THEME_SETTINGS C) k)) \<and>
     (prop_of d ''personalInfo'' = JUndefined \<longrightarrow> personalInfo w' = base) \<and>
     (prop_of d ''themeSettings'' = JUndefined \<longrightarrow> themeSettings w' = INITIAL_THEME_SETTINGS C)"
  using assms(1)
  by (auto simp add: w'_def base_def load_effect_def fetchData_exists basePersonalInfo_def
      split: option.splits)

theorem load_merges_over_defaults_witness:
  "firestore cloud_mode \<and>
   prop_of remote_profile ''personalInfo'' = JObj (fmap_of_list [(''name'', JStr ''Minh Nguyen'')]) \<and>
   prop_of remote_profile ''themeSettings'' = JObj (fmap_of_list [(''bgColor'', JStr ''#123456'')]) \<and>
   fmlookup (personalInfo (load_effect sample_constants cloud_mode ''en''
      (Snapshot True (Some remote_profile)) True (init_world sample_constants cloud_mode))) ''name'' =
     Some (JStr ''Minh Nguyen'') \<and>
   fmlookup (personalInfo (load_effect sample_constants cloud_mode ''en''
      (Snapshot True (Some remote_profile)) True (init_world sample_constants cloud_mode))) ''title'' =
     Some (JStr ''Software engineer'') \<and>
   fmlookup (personalInfo (load_effect sample_constants cloud_mode ''vi''
      (Snapshot True (Some remote_profile)) True (init_world sample_constants cloud_mode))) ''title'' =
     Some (JStr ''Ky su phan mem'') \<and>
   fmlookup (themeSettings (load_effect sample_constants cloud_mode ''en''
      (Snapshot True (Some remote_profile)) True (init_world sample_constants cloud_mode))) ''sitePassword'' =
     Some (JStr ''abc123'') \<and>
   fmlookup (themeSettings (load_effect sample_constants cloud_mode ''en''
      (Snapshot True (Some remote_profile)) True (init_world sample_constants cloud_mode))) ''bgColor'' =
     Some (JStr ''#123456'') \<and>
   prop_of (fmap_of_list [(''skills'', JArr [])]) ''personalInfo'' = JUndefined \<and>
   personalInfo (load_effect sample_constants cloud_mode ''en''
      (Snapshot True (Some (fmap_of_list [(''skills'', JArr [])]))) True
      (init_world sample_constants cloud_mode)) = PERSONAL_INFO_EN sample_constants"
proof -
  have f: "firestore cloud_mode"
    by (simp add: cloud_mode_def)
  have p: "prop_of remote_profile ''personalInfo'' = JObj (fmap_of_list [(''name'', JStr ''Minh Nguyen'')])"
    by (simp add: remote_profile_def prop_of_def)
  have t: "prop_of remote_profile ''themeSettings'' = JObj (fmap_of_list [(''bgColor'', JStr ''#123456'')])"
    by (simp add: remote_profile_def prop_of_def)
  have u: "prop_of (fmap_of_list [(''skills'', JArr [])]) ''personalInfo'' = JUndefined"
    "prop_of (fmap_of_list [(''skills'', JArr [])]) ''themeSettings'' = JUndefined"
    by (simp_all add: remote_doc_def prop_of_def)
  have b: "fmlookup (PERSONAL_INFO_EN sample_constants) ''title'' = Some (JStr ''Software engineer'')"
    "fmlookup (PERSONAL_INFO_VI sample_constants) ''title'' = Some (JStr ''Ky su phan mem'')"
    "fmlookup (INITIAL_THEME_SETTINGS sample_constants) ''sitePassword'' = Some (JStr ''abc123'')"
    by (simp_all add: sample_constants_def)
  note E = load_merges_over_defaults [OF f, where C = sample_constants and language = "''en''"
      and d = remote_profile and set_ok = True and w = "init_world sample_constants cloud_mode"
      and r = "fmap_of_list [(''name'', JStr ''Minh Nguyen'')]"
      and r' = "fmap_of_list [(''bgColor'', JStr ''#123456'')]"]
  note V = load_merges_over_defaults [OF f, where C = sample_constants and language = "''vi''"
      and d = remote_profile and set_ok = True and w = "init_world sample_constants cloud_mode"
      and r = "fmap_of_list [(''name'', JStr ''Minh Nguyen'')]"
      and r' = "fmap_of_list [(''bgColor'', JStr ''#123456'')]"]
  note A = load_merges_over_defaults [OF f, where C = sample_constants and language = "''en''"
      and d = "fmap_of_list [(''skills'', JArr [])]" and set_ok = True
      and w = "init_world sample_constants cloud_mode"]
  show ?thesis
    using f p t u b E [of "''name''"] E [of "''title''"] E [of "''sitePassword''"] E [of "''bgColor''"]
      V [of "''title''"] A
    by simp
qed

text \<open>
  C6, as the code has it. Each of the four collections becomes the remote value
  whenever that value is truthy, which every array is, the empty one included, and
  the locale's default collection otherwise (the field is absent or \<open>null\<close>). The
  remote value is taken whole; nothing is merged.
\<close>

theorem load_replaces_collections:
  fixes C :: constants and fb :: firebase and language :: string and d :: obj
    and set_ok :: bool and w :: world
  assumes "firestore fb"
  defines "w' \<equiv> load_effect C fb language (Snapshot True (Some d)) set_ok w"
  shows
    "workExperience w' =
       (if truthy (prop_of d ''workExperience'') then prop_of d ''workExperience''
        else baseWorkExperience C language) \<and>
     projects w' =
       (if truthy (prop_of d ''projects'') then prop_of d ''projects'' else baseProjects C language) \<and>
     certifications w' =
       (if truthy (prop_of d ''certifications'') then prop_of d ''certifications''
        else baseCertifications C language) \<and>
     skills w' =
       (if truthy (prop_of d ''skills'') then prop_of d ''skills'' else baseSkills C language) \<and>
     (prop_of d ''workExperience'' = JArr xs \<longrightarrow> workExperience w' = JArr xs) \<and>
     (prop_of d ''projects'' = JArr xs \<longrightarrow> projects w' = JArr xs) \<and>
     (prop_of d ''certifications'' = JArr xs \<longrightarrow> certifications w' = JArr xs) \<and>
     (prop_of d ''skills'' = JArr xs \<longrightarrow> skills w' = JArr xs) \<and>
     (prop_of d ''workExperience'' \<in> {JUndefined, JNull} \<longrightarrow>
        workExperience w' = baseWorkExperience C language) \<and>
     (prop_of d ''projects'' \<in> {JUndefined, JNull} \<longrightarrow> projects w' = baseProjects C language) \<and>
     (prop_of d ''certifications'' \<in> {JUndefined, JNull} \<longrightarrow>
        certifications w' = baseCertifications C language) \<and>
     (prop_of d ''skills'' \<in> {JUndefined, JNull} \<longrightarrow> skills w' = baseSkills C language)"
  using assms(1)
  by (auto simp add: w'_def load_effect_def fetchData_exists js_or_def)

theorem load_replaces_collections_witness:
  "firestore cloud_mode \<and>
   prop_of remote_doc ''workExperience'' = JArr [] \<and>
   workExperience (load_effect sample_constants cloud_mode ''vi'' (Snapshot True (Some remote_doc)) True
      (init_world sample_constants cloud_mode)) = JArr [] \<and>
   prop_of remote_doc ''skills'' \<in> {JUndefined, JNull} \<and>
   skills (load_effect sample_constants cloud_mode ''vi'' (Snapshot True (Some remote_doc)) True
      (init_world sample_constants cloud_mode)) = baseSkills sample_constants ''vi''"
proof -
  have f: "firestore cloud_mode"
    by (simp add: cloud_mode_def)
  have p: "prop_of remote_doc ''workExperience'' = JArr []"
    "prop_of remote_doc ''skills'' \<in> {JUndefined, JNull}"
    by (simp_all add: remote_doc_def prop_of_def)
  show ?thesis
    using f p load_replaces_collections [OF f, where d = remote_doc and xs = "[]"
        and C = sample_constants and language = "''vi''" and set_ok = True
        and w = "init_world sample_constants cloud_mode"]
    by blast
qed

text \<open>
  A remote collection that is present and empty is kept: the load does not fall
  back to the default collection.
\<close>

theorem empty_remote_collection_counterexample:
  "prop_of remote_doc ''workExperience'' = JArr [] \<and>
   workExperience (load_effect sample_constants cloud_mode ''vi'' (Snapshot True (Some remote_doc)) True
      (init_world sample_constants cloud_mode)) \<noteq> baseWorkExperience sample_constants ''vi''"
  by (simp add: load_effect_def fetchData_exists cloud_mode_def remote_doc_def prop_of_def js_or_def
      baseWorkExperience_def sample_constants_def)

section \<open>Switching the language\<close>

lemma handle_SwitchLanguage_local:
  "\<not> firestore fb \<Longrightarrow>
   handle C fb (SwitchLanguage l got ok) w = (language_effect C l w)\<lparr> isLoading := False \<rparr>"
  by (simp add: load_effect_def)

lemma fetchData_rejected:
  "fetchData C l GetRejected ok w =
     (log_op DocGet w)\<lparr> error := Some load_error_message, isLoading := False \<rparr>"
  by (simp add: fetchData_def Let_def)

lemma fetchData_absent:
  "fetchData C l (Snapshot False data) ok w =
     (if ok then (log_op (DocSet (initialState C)) (log_op DocGet w))\<lparr> isLoading := False \<rparr>
      else (log_op (DocSet (initialState C)) (log_op DocGet w))
             \<lparr> error := Some load_error_message, isLoading := False \<rparr>)"
  by (simp add: fetchData_def Let_def)

lemma log_op_cells [simp]:
  "personalInfo (log_op op w) = personalInfo w"
  "workExperience (log_op op w) = workExperience w"
  "projects (log_op op w) = projects w"
  "certifications (log_op op w) = certifications w"
  "skills (log_op op w) = skills w"
  "store_log (log_op op w) = store_log w @ [(clock w, op)]"
  by (simp_all add: log_op_def)




section \<open>Loading from an empty store\<close>

lemma payloads_append [simp]: "payloads (xs @ ys) = payloads xs @ payloads ys"
  by (induction xs rule: payloads.induct) simp_all

lemma fmadd_absorb: "fmdom m |\<subseteq>| fmdom n \<Longrightarrow> m ++\<^sub>f n = n"
  by (rule fmap_ext) (auto simp add: fmlookup_dom_iff fsubset_iff)

lemma initialState_vi: "initialState C = locale_defaults C ''vi''"
  by (simp add: initialState_def locale_defaults_def basePersonalInfo_def baseWorkExperience_def
      baseProjects_def baseCertifications_def baseSkills_def)

lemma stateToSave_init: "stateToSave (init_world C fb) = initialState C"
  by (simp add: stateToSave_def init_world_def initialState_def)

lemma stateToSave_language_effect:
  "stateToSave (language_effect C l s) =
     (locale_defaults C l)\<lparr> personalInfo := personalInfo s ++\<^sub>f basePersonalInfo C l,
                            themeSettings := themeSettings s \<rparr>"
  by (simp add: stateToSave_def locale_defaults_def)

lemma stateToSave_fetch_absent [simp]:
  "stateToSave (fetchData C l (Snapshot False data) ok w) = stateToSave w"
  by (simp add: fetchData_absent)

lemma stateToSave_fetch_rejected [simp]:
  "stateToSave (fetchData C l GetRejected ok w) = stateToSave w"
  by (simp add: fetchData_rejected)

lemma mount_after_language:
  "fmdom (PERSONAL_INFO_VI C) |\<subseteq>| fmdom (basePersonalInfo C l) \<Longrightarrow>
   stateToSave (language_effect C l (init_world C fb)) = locale_defaults C l"
  by (simp add: stateToSave_language_effect fmadd_absorb init_world_def locale_defaults_def)

lemma load_absent:
  assumes "firestore fb"
  shows "stateToSave (load_effect C fb l (Snapshot False data) ok w) = stateToSave w"
    and "store_log (load_effect C fb l (Snapshot False data) ok w) =
           store_log w @ [(clock w, DocGet), (clock w, DocSet (locale_defaults C ''vi''))]"
  using assms by (simp_all add: load_effect_def fetchData_absent initialState_vi)

lemma mount_content:
  "got = GetRejected \<or> got = Snapshot False data \<or> \<not> firestore fb \<Longrightarrow>
   stateToSave (mount C fb l got ok) = stateToSave (language_effect C l (init_world C fb))"
  by (auto simp add: mount_def Let_def load_effect_def)

lemma mount_absent_log:
  assumes "firestore fb"
  shows "store_log (mount C fb l (Snapshot False data) ok) =
           [(0, DocGet), (0, DocSet (locale_defaults C ''vi''))]"
  using assms
  by (simp add: mount_def Let_def load_effect_def fetchData_absent initialState_vi)
     (simp add: init_world_def)

lemma mount_loaded [simp]: "\<not> isLoading (mount C fb l got ok)"
  by (simp add: mount_def Let_def)

lemma sample_bundles_differ:
  "locale_defaults sample_constants ''vi'' \<noteq> locale_defaults sample_constants ''en''"
proof
  assume "locale_defaults sample_constants ''vi'' = locale_defaults sample_constants ''en''"
  then have "fmlookup (personalInfo (locale_defaults sample_constants ''vi'')) ''title'' =
             fmlookup (personalInfo (locale_defaults sample_constants ''en'')) ''title''"
    by simp
  then show False
    by (simp add: locale_defaults_def basePersonalInfo_def sample_constants_def)
qed


section \<open>An unavailable or failing store\<close>







lemma handle_loaded: "\<not> isLoading w \<Longrightarrow> \<not> isLoading (handle C fb e w)"
  by (cases e)
     (simp_all add: onLoginSuccess_def handleLogout_def handlePageChange_def handleUnlockSite_def
       handleAdminLoginForUnlock_def)

lemma session_loaded: "\<not> isLoading (session C fb l got ok es)"
proof (induction es rule: rev_induct)
  case Nil
  then show ?case by (simp add: session_def)
next
  case (snoc e es)
  then show ?case by (simp add: session_def step_def handle_loaded)
qed


lemma error_not_rendered: "render (s\<lparr> error := e \<rparr>) = render s"
  by (simp add: render_def renderPage_def isLocked_def protection_flag_def
      split: option.splits page.splits)






section \<open>Sanitising the payload\<close>

lemma json_clone_undefined [simp]: "json_clone v = JUndefined \<longleftrightarrow> v = JUndefined"
  by (cases v) (auto split: jsnum.splits)

lemma json_clone_str [simp]: "json_clone v = JStr s \<longleftrightarrow> v = JStr s"
  by (cases v) (auto split: jsnum.splits)

lemma is_inline_clone [simp]: "is_inline (json_clone v) = is_inline v"
  by (cases v) (auto simp add: is_inline_def split: jsnum.splits)

lemma prop_of_clone_obj: "prop_of (clone_obj m) k = json_clone (prop_of m k)"
  by (simp add: clone_obj_def prop_of_def split: option.splits)

lemma opt_startsWith_inline: "opt_startsWith v ''data:'' = Inr b \<Longrightarrow> b = is_inline v"
  by (cases v) (auto simp add: is_inline_def)

lemma blank_inline_result:
  assumes "blank_inline k m = Inr m'"
  shows "m' = (if is_inline (prop_of m k) then fmupd k (JStr []) m else m)"
  using assms
  by (auto simp add: blank_inline_def split: sum.splits dest: opt_startsWith_inline)

lemma prop_of_fmupd [simp]:
  "prop_of (fmupd k v m) k' = (if k = k' then v else prop_of m k')"
  by (simp add: prop_of_def)





































section \<open>The debounced save\<close>

lemma step_Elapse: "step C fb w (Elapse d) = elapse fb d w"
  by (simp add: step_def rerun_same_deps save_deps_def)

lemma debounce_inv_clear:
  assumes "debounce_inv w"
  shows "(case timeout w of Some i \<Rightarrow> filter (\<lambda>(j, due, a). j \<noteq> i) (timers w) | None \<Rightarrow> timers w) = []"
proof (cases "timeout w")
  case None
  with assms show ?thesis
    by (cases "timers w") (auto simp add: debounce_inv_def)
next
  case (Some i)
  with assms show ?thesis
    by (auto simp add: debounce_inv_def list_all_iff filter_empty_conv)
qed

lemma saveStateToFirestore_timers:
  assumes "debounce_inv w"
  shows "timers (saveStateToFirestore a w) = [(next_timer w, clock w + waitFor, a)]"
    and "timeout (saveStateToFirestore a w) = Some (next_timer w)"
  using debounce_inv_clear [OF assms]
  by (auto simp add: saveStateToFirestore_def setTimeout_def clearTimeout_def split: option.splits)

lemma saveStateToFirestore_inv: "debounce_inv w \<Longrightarrow> debounce_inv (saveStateToFirestore a w)"
  by (simp add: debounce_inv_def [of "saveStateToFirestore a w"] saveStateToFirestore_timers)

lemma lock_effect_inv [simp]: "debounce_inv (lock_effect w) = debounce_inv w"
  by (simp add: debounce_inv_def)

lemma rerun_effects_inv: "debounce_inv cur \<Longrightarrow> debounce_inv (rerun_effects fb prev cur)"
  by (simp add: rerun_effects_def Let_def save_effect_def saveStateToFirestore_inv)

lemma elapse_timers:
  "timers (elapse fb d w) = filter (\<lambda>(i, due, a). \<not> due \<le> clock w + d) (timers w)"
  by (simp add: elapse_def Let_def fire_frame)

lemma elapse_inv: "debounce_inv w \<Longrightarrow> debounce_inv (elapse fb d w)"
  by (auto simp add: debounce_inv_def elapse_timers list_all_iff)

lemma handle_inv: "debounce_inv w \<Longrightarrow> debounce_inv (handle C fb e w)"
  by (cases e)
     (simp_all add: elapse_inv, simp_all add: debounce_inv_def onLoginSuccess_def handleLogout_def
       handlePageChange_def handleUnlockSite_def handleAdminLoginForUnlock_def)

lemma step_inv: "debounce_inv w \<Longrightarrow> debounce_inv (step C fb w e)"
  by (simp add: step_def rerun_effects_inv handle_inv)

lemma mount_inv: "debounce_inv (mount C fb l got ok)"
proof -
  have "debounce_inv ((load_effect C fb l got ok (language_effect C l (init_world C fb)))
      \<lparr> isSiteUnlocked := b \<rparr>)" for b
    by (simp add: debounce_inv_def) (simp add: init_world_def)
  then show ?thesis
    by (simp add: mount_def Let_def rerun_effects_inv)
qed

lemma session_inv: "debounce_inv (session C fb l got ok es)"
proof (induction es rule: rev_induct)
  case Nil
  then show ?case by (simp add: session_def mount_inv)
next
  case (snoc e es)
  then show ?case by (simp add: session_def step_inv)
qed

lemma handle_setter_frame:
  assumes "is_setter e"
  shows "isLoading (handle C fb e w) = isLoading w"
    and "clock (handle C fb e w) = clock w"
    and "store_log (handle C fb e w) = store_log w"
    and "timers (handle C fb e w) = timers w"
    and "timeout (handle C fb e w) = timeout w"
    and "next_timer (handle C fb e w) = next_timer w"
  using assms by (cases e; simp)+

lemma rerun_effects_save:
  assumes "firestore fb" and "\<not> isLoading cur" and "save_deps cur \<noteq> save_deps prev"
    and "debounce_inv cur"
  shows "timers (rerun_effects fb prev cur) = [(next_timer cur, clock cur + waitFor, stateToSave cur)]"
    and "timeout (rerun_effects fb prev cur) = Some (next_timer cur)"
proof -
  let ?w1 = "if protection_flag cur \<noteq> protection_flag prev then lock_effect cur else cur"
  have w1: "stateToSave ?w1 = stateToSave cur" "isLoading ?w1 = isLoading cur"
    "clock ?w1 = clock cur" "next_timer ?w1 = next_timer cur" "debounce_inv ?w1"
    using assms(4) by simp_all
  have r: "rerun_effects fb prev cur = saveStateToFirestore (stateToSave ?w1) ?w1"
    using assms(1-3) w1(1,2)
    by (simp add: rerun_effects_def Let_def save_deps_def save_effect_def del: stateToSave_other)
  show "timers (rerun_effects fb prev cur) = [(next_timer cur, clock cur + waitFor, stateToSave cur)]"
    unfolding r using saveStateToFirestore_timers(1) [OF w1(5), of "stateToSave ?w1"] w1(1,3,4)
    by simp
  show "timeout (rerun_effects fb prev cur) = Some (next_timer cur)"
    unfolding r using saveStateToFirestore_timers(2) [OF w1(5), of "stateToSave ?w1"] w1(4)
    by simp
qed

lemma mutation_arms:
  assumes "firestore fb" and "\<not> isLoading w" and "debounce_inv w" and "mutates C fb w e"
  shows "armed (step C fb w e)"
    and "store_log (step C fb w e) = store_log w"
    and "clock (step C fb w e) = clock w"
    and "\<not> isLoading (step C fb w e)"
proof -
  from assms(4) have s: "is_setter e" and c: "save_deps (handle C fb e w) \<noteq> save_deps w"
    by (simp_all add: mutates_def save_deps_def)
  note f = handle_setter_frame [OF s, of C fb w]
  have i: "debounce_inv (handle C fb e w)"
    using assms(3) by (rule handle_inv)
  have l: "\<not> isLoading (handle C fb e w)"
    using assms(2) f(1) by simp
  note r = rerun_effects_save [OF assms(1) l c i]
  show "armed (step C fb w e)"
    using r by (simp add: armed_def step_def)
  show "store_log (step C fb w e) = store_log w"
    using f(3) by (simp add: step_def)
  show "clock (step C fb w e) = clock w"
    using f(2) by (simp add: step_def)
  show "\<not> isLoading (step C fb w e)"
    using l by (simp add: step_def)
qed

lemma armed_inv: "armed w \<Longrightarrow> debounce_inv w"
  by (auto simp add: armed_def debounce_inv_def)

lemma quiet_elapse:
  assumes "armed w" and "d < waitFor"
  shows "timers (elapse fb d w) = timers w"
    and "store_log (elapse fb d w) = store_log w"
  using assms by (auto simp add: armed_def elapse_timers elapse_log)

lemma burst_stays_armed:
  assumes "firestore fb"
  shows "armed w \<Longrightarrow> \<not> isLoading w \<Longrightarrow> quiet_burst C fb w ms \<Longrightarrow>
         armed (foldl (step C fb) w (burst_events ms)) \<and>
         \<not> isLoading (foldl (step C fb) w (burst_events ms)) \<and>
         store_log (foldl (step C fb) w (burst_events ms)) = store_log w"
proof (induction ms arbitrary: w)
  case Nil
  then show ?case by (simp add: burst_events_def)
next
  case (Cons m ms)
  obtain d e where m: "m = (d, e)"
    by (cases m)
  let ?w1 = "step C fb w (Elapse d)"
  let ?w2 = "step C fb ?w1 e"
  from Cons.prems(3) m have d: "d < waitFor" and mu: "mutates C fb ?w1 e"
    and q: "quiet_burst C fb ?w2 ms"
    by simp_all
  have w1: "debounce_inv ?w1" "\<not> isLoading ?w1" "store_log ?w1 = store_log w"
    using Cons.prems(1,2) d
    by (simp_all add: step_Elapse elapse_inv armed_inv quiet_elapse)
  note a = mutation_arms [OF assms w1(2) w1(1) mu]
  from Cons.IH [OF a(1) a(4) q] a(2) w1(3) show ?case
    by (simp add: burst_events_def m)
qed

lemma armed_fires:
  assumes "firestore fb" and "armed w" and "waitFor \<le> d" and "sanitize (stateToSave w) = Inr p"
  shows "store_log (elapse fb d w) = store_log w @ [(clock w + waitFor, DocSet p)]"
    and "timers (elapse fb d w) = []"
  using assms by (auto simp add: armed_def elapse_timers elapse_log written_def)

lemma url_ok_startsWith: "url_ok v \<Longrightarrow> \<exists>b. opt_startsWith (json_clone v) p = Inr b"
  by (cases v) (auto simp add: url_ok_def)

lemma url_ok_clone: "url_ok v \<Longrightarrow> url_ok (json_clone v)"
  by (cases v) (simp_all add: url_ok_def)

lemma blank_inline_ok:
  "url_ok (prop_of m k) \<Longrightarrow> \<exists>m'. blank_inline k (clone_obj m) = Inr m'"
  using url_ok_startsWith [of "prop_of m k" "''data:''"]
  by (auto simp add: blank_inline_def prop_of_clone_obj)

lemma blank_inline_ok2:
  assumes "blank_inline k (clone_obj m) = Inr m1" and "k \<noteq> k'" and "url_ok (prop_of m k')"
  shows "\<exists>m2. blank_inline k' m1 = Inr m2"
proof -
  have "prop_of m1 k' = json_clone (prop_of m k')"
    using blank_inline_result [OF assms(1)] assms(2) by (simp add: prop_of_clone_obj)
  with url_ok_startsWith [OF assms(3), of "''data:''"] show ?thesis
    by (auto simp add: blank_inline_def)
qed

lemma replace_inline_image_ok:
  "item_ok x \<Longrightarrow> \<exists>y. replace_inline_image url (if x = JUndefined then JNull else json_clone x) = Inr y"
proof (cases x)
  case (JObj m)
  assume "item_ok x"
  with JObj have "url_ok (prop_of m ''imageUrl'')"
    by (simp add: item_ok_def)
  from url_ok_startsWith [OF this, of "''data:''"] JObj show ?thesis
    by (auto simp add: replace_inline_image_def prop_of_clone_obj [unfolded clone_obj_def, simplified])
qed (simp_all add: item_ok_def)

lemma traverse_ok:
  "list_all (\<lambda>x. \<exists>y. f x = Inr y) xs \<Longrightarrow> \<exists>ys. traverse f xs = Inr ys"
  by (induction xs) auto

lemma array_map_ok:
  assumes "items_ok v"
  shows "\<exists>v'. array_map (replace_inline_image url) (json_clone v) = Inr v'"
proof (cases v)
  case (JArr xs)
  with assms have i: "list_all item_ok xs"
    by (simp add: items_ok_def)
  have "list_all (\<lambda>x. \<exists>y. replace_inline_image url x = Inr y)
      (map (\<lambda>x. if x = JUndefined then JNull else json_clone x) xs)"
    unfolding list_all_iff
  proof
    fix z
    assume "z \<in> set (map (\<lambda>x. if x = JUndefined then JNull else json_clone x) xs)"
    then obtain x where x: "x \<in> set xs" and z: "z = (if x = JUndefined then JNull else json_clone x)"
      by auto
    from x i have "item_ok x"
      by (simp add: list_all_iff)
    from replace_inline_image_ok [OF this, of url] show "\<exists>y. replace_inline_image url z = Inr y"
      unfolding z .
  qed
  from traverse_ok [OF this] JArr show ?thesis
    by (auto simp add: comp_def)
qed (use assms in \<open>simp_all add: items_ok_def\<close>)

lemma sanitize_well_shaped:
  assumes "well_shaped c"
  shows "\<exists>p. sanitize c = Inr p"
proof -
  from assms have u: "url_ok (prop_of (personalInfo c) ''avatarUrl'')"
    "url_ok (prop_of (personalInfo c) ''logoUrl'')"
    "url_ok (prop_of (themeSettings c) ''bgImageUrl'')"
    "url_ok (prop_of (themeSettings c) ''backgroundMusicUrl'')"
    "items_ok (projects c)" "items_ok (certifications c)"
    by (simp_all add: well_shaped_def)
  from blank_inline_ok [OF u(1)] obtain p1 where
    p1: "blank_inline ''avatarUrl'' (clone_obj (personalInfo c)) = Inr p1" ..
  from blank_inline_ok2 [OF p1 _ u(2)] obtain p2 where
    p2: "blank_inline ''logoUrl'' p1 = Inr p2" by auto
  from blank_inline_ok [OF u(3)] obtain t1 where
    t1: "blank_inline ''bgImageUrl'' (clone_obj (themeSettings c)) = Inr t1" ..
  from blank_inline_ok2 [OF t1 _ u(4)] obtain t2 where
    t2: "blank_inline ''backgroundMusicUrl'' t1 = Inr t2" by auto
  from array_map_ok [OF u(5)] obtain ps where
    ps: "array_map (replace_inline_image project_placeholder) (json_clone (projects c)) = Inr ps" ..
  from array_map_ok [OF u(6)] obtain cs where
    cs: "array_map (replace_inline_image cert_placeholder) (json_clone (certifications c)) = Inr cs" ..
  show ?thesis
    by (simp add: sanitize_def deep_copy_def Let_def p1 p2 t1 t2 ps cs)
qed

text \<open>
  C3. In any session with a store client, take a burst of content mutations, the
  first at any moment and each further one less than 2000 ms after the one before.
  Every mutation leaves exactly one pending callback, due 2000 ms later and
  carrying the cells as that mutation left them, whatever was pending before.
  Nothing is written while the burst lasts, and once 2000 ms or more have passed
  after the last mutation the log has grown by exactly one write, timed 2000 ms
  after the last mutation, whose payload is the sanitised state of that moment; no
  callback is left. (Sanitising succeeds on every state of the declared shape.)
\<close>

theorem debounce_coalesces_burst:
  fixes C :: constants and fb :: firebase and l :: string and got :: get_result and ok :: bool
    and es :: "event list" and e1 :: event and ms :: "(nat \<times> event) list"
  defines "w \<equiv> session C fb l got ok es"
  defines "wn \<equiv> foldl (step C fb) (session C fb l got ok es) (e1 # burst_events ms)"
  assumes "firestore fb"
    and "mutates C fb w e1"
    and "quiet_burst C fb (step C fb w e1) ms"
    and "sanitize (stateToSave wn) = Inr p"
    and "waitFor \<le> D"
  shows
    "armed (step C fb w e1) \<and>
     armed wn \<and>
     store_log wn = store_log w \<and>
     store_log (step C fb wn (Elapse D)) = store_log w @ [(clock wn + 2000, DocSet p)] \<and>
     timers (step C fb wn (Elapse D)) = []"
proof -
  have i: "debounce_inv w" "\<not> isLoading w"
    by (simp_all add: w_def session_inv session_loaded)
  note a = mutation_arms [OF assms(3) i(2) i(1) assms(4)]
  note b = burst_stays_armed [OF assms(3) a(1) a(4) assms(5)]
  have wn: "wn = foldl (step C fb) (step C fb w e1) (burst_events ms)"
    by (simp add: wn_def w_def)
  from b have c: "armed wn" "store_log wn = store_log w"
    using a(2) by (simp_all add: wn)
  note f = armed_fires [OF assms(3) c(1) assms(7) assms(6)]
  show ?thesis
    using a(1) c f by (simp add: step_Elapse waitFor_def)
qed

theorem debounce_coalesces_burst_witness:
  "firestore cloud_mode \<and>
   mutates sample_constants cloud_mode
     (session sample_constants cloud_mode ''vi'' GetRejected True []) (SetPersonalInfo new_info) \<and>
   quiet_burst sample_constants cloud_mode
     (step sample_constants cloud_mode (session sample_constants cloud_mode ''vi'' GetRejected True [])
        (SetPersonalInfo new_info))
     [(500, SetSkills (JArr [])), (1999, SetThemeSettings open_theme)] \<and>
   waitFor \<le> 2000 \<and>
   store_log (step sample_constants cloud_mode
      (foldl (step sample_constants cloud_mode)
         (session sample_constants cloud_mode ''vi'' GetRejected True [])
         (SetPersonalInfo new_info #
            burst_events [(500, SetSkills (JArr [])), (1999, SetThemeSettings open_theme)]))
      (Elapse 2000)) =
     [(0, DocGet), (4499, DocSet burst_payload)]"
proof -
  let ?w = "session sample_constants cloud_mode ''vi'' GetRejected True []"
  let ?ms = "[(500, SetSkills (JArr [])), (1999, SetThemeSettings open_theme)]"
  let ?wn = "foldl (step sample_constants cloud_mode) ?w (SetPersonalInfo new_info # burst_events ?ms)"
  have f: "firestore cloud_mode"
    by (simp add: cloud_mode_def)
  have m: "mutates sample_constants cloud_mode ?w (SetPersonalInfo new_info)"
    by code_simp
  have q: "quiet_burst sample_constants cloud_mode
      (step sample_constants cloud_mode ?w (SetPersonalInfo new_info)) ?ms"
    by code_simp
  have s: "sanitize (stateToSave ?wn) = Inr burst_payload"
    by code_simp
  have d: "waitFor \<le> 2000"
    by (simp add: waitFor_def)
  have c: "clock ?wn = 2499"
    by code_simp
  have l: "store_log ?w = [(0, DocGet)]"
    by code_simp
  show ?thesis
    using f m q d c l debounce_coalesces_burst [OF f m q s d]
    by simp
qed

section \<open>The bootstrap write\<close>

lemma mount_arms:
  assumes "firestore fb"
  shows "armed (mount C fb l got ok)"
proof -
  let ?w0 = "init_world C fb"
  let ?w2 = "(load_effect C fb l got ok (language_effect C l ?w0))
      \<lparr> isSiteUnlocked := isSiteUnlocked (lock_effect ?w0) \<rparr>"
  have l: "\<not> isLoading ?w2"
    by simp
  have d: "save_deps ?w2 \<noteq> save_deps ?w0"
    by (simp add: save_deps_def) (simp add: init_world_def)
  have i: "debounce_inv ?w2"
    by (simp add: debounce_inv_def) (simp add: init_world_def)
  from rerun_effects_save [OF assms l d i] show ?thesis
    by (simp add: armed_def mount_def Let_def)
qed

text \<open>
  C5, as the code has it. With the document absent, loading leaves the six cells as
  they were, so a state that was the default bundle of the language still is, and it
  attempts exactly one write, whose payload is the Vietnamese default bundle whatever
  the language. After mounting, the cells hold the default bundle of the language as
  soon as that language's personal-info defaults define every field the Vietnamese
  ones define; the end of loading has then scheduled the usual debounced save of
  those cells.
\<close>

theorem empty_store_bootstrap:
  fixes C :: constants and fb :: firebase and l :: string and data :: "obj option"
    and ok :: bool and w :: world
  assumes "firestore fb"
  defines "w' \<equiv> load_effect C fb l (Snapshot False data) ok w"
  defines "m \<equiv> mount C fb l (Snapshot False data) ok"
  shows
    "stateToSave w' = stateToSave w \<and>
     (stateToSave w = locale_defaults C l \<longrightarrow> stateToSave w' = locale_defaults C l) \<and>
     store_log w' = store_log w @ [(clock w, DocGet), (clock w, DocSet (locale_defaults C ''vi''))] \<and>
     payloads (store_log w') = payloads (store_log w) @ [locale_defaults C ''vi''] \<and>
     \<not> isLoading w' \<and>
     (fmdom (PERSONAL_INFO_VI C) |\<subseteq>| fmdom (basePersonalInfo C l) \<longrightarrow>
        stateToSave m = locale_defaults C l) \<and>
     payloads (store_log m) = [locale_defaults C ''vi''] \<and>
     \<not> isLoading m \<and>
     armed m"
  using assms(1)
  by (simp add: w'_def m_def load_absent mount_absent_log mount_content mount_after_language
      mount_arms)

theorem empty_store_bootstrap_witness:
  "firestore cloud_mode \<and>
   fmdom (PERSONAL_INFO_VI sample_constants) |\<subseteq>| fmdom (basePersonalInfo sample_constants ''en'') \<and>
   stateToSave (mount sample_constants cloud_mode ''en'' (Snapshot False None) True) =
     locale_defaults sample_constants ''en'' \<and>
   payloads (store_log (mount sample_constants cloud_mode ''en'' (Snapshot False None) True)) =
     [locale_defaults sample_constants ''vi''] \<and>
   stateToSave (language_effect sample_constants ''en'' (init_world sample_constants cloud_mode)) =
     locale_defaults sample_constants ''en'' \<and>
   stateToSave (load_effect sample_constants cloud_mode ''en'' (Snapshot False None) True
     (language_effect sample_constants ''en'' (init_world sample_constants cloud_mode))) =
     locale_defaults sample_constants ''en''"
proof -
  have f: "firestore cloud_mode"
    by (simp add: cloud_mode_def)
  have d: "fmdom (PERSONAL_INFO_VI sample_constants) |\<subseteq>| fmdom (basePersonalInfo sample_constants ''en'')"
    by (simp add: sample_constants_def basePersonalInfo_def)
  have s: "stateToSave (language_effect sample_constants ''en'' (init_world sample_constants cloud_mode)) =
     locale_defaults sample_constants ''en''"
    using d by (rule mount_after_language)
  show ?thesis
    using f d s
      empty_store_bootstrap [OF f, where C = sample_constants and l = "''en''" and data = None
        and ok = True
        and w = "language_effect sample_constants ''en'' (init_world sample_constants cloud_mode)"]
    by simp
qed

text \<open>
  Mounting in English on an empty store does not initialise the document to the
  English bundle.
\<close>

theorem bootstrap_write_counterexample:
  "payloads (store_log (mount sample_constants cloud_mode ''en'' (Snapshot False None) True)) \<noteq>
     [locale_defaults sample_constants ''en'']"
  using sample_bundles_differ
  by (simp add: mount_absent_log cloud_mode_def)

end
